(* ===== verification/Prelude.thy ===== *)
theory Prelude
  imports Main "HOL-Library.Sublist" "HOL-Library.AList"
begin

text \<open>
  Shared vocabulary of the development: the named collections the component
  theories put their evaluation rules into, the type synonyms that name the
  model's basic types, and generic lemmas on lists and strings that the
  Python runtime model, the regular-expression engine and the handlers share.
\<close>

named_theorems py_eval "evaluation rules of the Python runtime model (for witnesses)"
named_theorems handler_simps "unfolding rules of the request handlers"
named_theorems re_eval "unfolding rules of the regular-expression engine (for concrete subjects)"

type_synonym codepoint = nat

abbreviation cp :: "char \<Rightarrow> codepoint" where
  "cp c \<equiv> of_char c"

section \<open>Decimal digits\<close>

definition is_digit :: "char \<Rightarrow> bool" where
  "is_digit c \<longleftrightarrow> 48 \<le> cp c \<and> cp c \<le> 57"

definition digit_val :: "char \<Rightarrow> nat" where
  "digit_val c = cp c - 48"

definition digit_char :: "nat \<Rightarrow> char" where
  "digit_char d = ''0123456789'' ! d"

definition digits_val :: "string \<Rightarrow> nat" where
  "digits_val ds = foldl (\<lambda>acc c. 10 * acc + digit_val c) 0 ds"

fun dec_digits :: "nat \<Rightarrow> string" where
  "dec_digits n = (if n < 10 then [digit_char n] else dec_digits (n div 10) @ [digit_char (n mod 10)])"

declare dec_digits.simps [simp del]

section \<open>Strings\<close>

text \<open>Python's \<open>sep.join(xs)\<close>.\<close>

fun py_join :: "string \<Rightarrow> string list \<Rightarrow> string" where
  "py_join sep [] = []"
| "py_join sep [x] = x"
| "py_join sep (x # y # zs) = x @ sep @ py_join sep (y # zs)"

text \<open>Python's substring test \<open>needle in hay\<close> on strings, written as the scan the
  interpreter performs; it agrees with the library's \<open>sublist\<close>.\<close>

fun py_contains :: "string \<Rightarrow> string \<Rightarrow> bool" where
  "py_contains n [] = (n = [])"
| "py_contains n (c # cs) = (prefix n (c # cs) \<or> py_contains n cs)"

section \<open>Options and sums\<close>

text \<open>Sequencing of fallible steps: the first \<open>Inl\<close> (a raised exception) is returned.\<close>

definition bind_sum :: "'e + 'a \<Rightarrow> ('a \<Rightarrow> 'e + 'b) \<Rightarrow> 'e + 'b" where
  "bind_sum m f = (case m of Inl e \<Rightarrow> Inl e | Inr a \<Rightarrow> f a)"

section \<open>Lemmas\<close>

lemma less_10_cases: "(d::nat) < 10 \<Longrightarrow> d \<in> {0, 1, 2, 3, 4, 5, 6, 7, 8, 9}"
  by auto

lemma digit_char_is_digit [simp]: "d < 10 \<Longrightarrow> is_digit (digit_char d)"
  by (drule less_10_cases) (auto simp: is_digit_def digit_char_def)

lemma digit_val_digit_char [simp]: "d < 10 \<Longrightarrow> digit_val (digit_char d) = d"
  by (drule less_10_cases) (auto simp: digit_val_def digit_char_def)

lemma digits_val_append [simp]:
  "digits_val (xs @ ys) = foldl (\<lambda>acc c. 10 * acc + digit_val c) (digits_val xs) ys"
  by (simp add: digits_val_def)

lemma digits_val_snoc [simp]: "digits_val (xs @ [c]) = 10 * digits_val xs + digit_val c"
  by (simp add: digits_val_def)

lemma dec_digits_nonempty [simp]: "dec_digits n \<noteq> []"
  by (subst dec_digits.simps) simp

lemma dec_digits_all_digits: "\<forall>c \<in> set (dec_digits n). is_digit c"
proof (induction n rule: dec_digits.induct)
  case (1 n)
  then show ?case by (subst dec_digits.simps) auto
qed

text \<open>Reading back the printed digits gives the number: the decimal round trip.\<close>

lemma digits_val_dec_digits [simp]: "digits_val (dec_digits n) = n"
proof (induction n rule: dec_digits.induct)
  case (1 n)
  show ?case
  proof (cases "n < 10")
    case True
    then show ?thesis by (subst dec_digits.simps) (simp add: digits_val_def)
  next
    case False
    with "1.IH" show ?thesis by (subst dec_digits.simps) simp
  qed
qed

lemma dec_digits_length_le: "n < 10 ^ k \<Longrightarrow> 0 < k \<Longrightarrow> length (dec_digits n) \<le> k"
proof (induction n arbitrary: k rule: dec_digits.induct)
  case (1 n)
  show ?case
  proof (cases "n < 10")
    case True
    with "1.prems" show ?thesis by (subst dec_digits.simps) simp
  next
    case False
    then obtain k' where k: "k = Suc k'" using "1.prems" by (cases k) auto
    from False k "1.prems" have "0 < k'" by (cases k') auto
    moreover from k "1.prems" have "n div 10 < 10 ^ k'"
      by (simp add: less_mult_imp_div_less mult.commute)
    ultimately have "length (dec_digits (n div 10)) \<le> k'"
      using "1.IH" False by blast
    with False k show ?thesis by (subst dec_digits.simps) simp
  qed
qed

lemma py_contains_sublist: "py_contains n h \<longleftrightarrow> sublist n h"
  by (induction h) (auto simp: sublist_Cons_right)

lemma py_contains_mono: "py_contains n h \<Longrightarrow> sublist h h' \<Longrightarrow> py_contains n h'"
  by (auto simp: py_contains_sublist intro: sublist_order.order_trans)

lemma py_contains_append_right:
  "py_contains (n @ m) h \<Longrightarrow> py_contains n h"
  by (auto simp: py_contains_sublist intro: sublist_append_leftI sublist_order.order_trans)

lemma py_join_Cons: "py_join sep (x # xs) = x @ (if xs = [] then [] else sep @ py_join sep xs)"
  by (cases xs) auto

text \<open>Characters are equal exactly when their code points are.\<close>

lemma char_eq_cp: "(c = d) = (cp c = cp d)"
  by (metis of_char_eq_iff)

text \<open>A pattern over the first five characters of a string, read by index.\<close>

lemma ex_five_cons:
  "(\<exists>a b c d e r. s = a # b # c # d # e # r \<and> P a b c d e r) =
   (5 \<le> length s \<and> P (s ! 0) (s ! 1) (s ! 2) (s ! 3) (s ! 4) (drop 5 s))"
  by (cases s rule: remdups_adj.cases; cases "drop 2 s" rule: remdups_adj.cases; cases "drop 4 s")
     (auto simp: numeral_eq_Suc)

text \<open>Writing a key of an association list adds that pair and keeps or drops the others.\<close>

lemma set_update_subset: "set (AList.update k v al) \<subseteq> insert (k, v) (set al)"
  by (induction al) auto

lemma bind_sum_simps [simp]:
  "bind_sum (Inl e) f = Inl e"
  "bind_sum (Inr a) f = f a"
  by (simp_all add: bind_sum_def)

lemma bind_sum_Inr_iff: "bind_sum m f = Inr b \<longleftrightarrow> (\<exists>a. m = Inr a \<and> f a = Inr b)"
  by (cases m) auto

end
