(* ===== verification/PyRuntime.thy ===== *)
theory PyRuntime
  imports Prelude
begin

text \<open>
  The part of the Python runtime the two handlers rely on, as HOL functions:
  JSON values as Python sees them after \<open>json.loads\<close> (\<open>jval\<close>), the exceptions
  the handlers can raise (\<open>py_exc\<close>), truthiness, \<open>type(x).__name__\<close>,
  \<open>str()\<close> and \<open>repr()\<close> (CPython's float repr included), \<open>str.lower\<close>,
  \<open>str.isspace\<close> and \<open>int()\<close> with CPython's string grammar and its
  4300-digit conversion limit, and the dictionary operations \<open>d.get(k, default)\<close>,
  \<open>k in x\<close> and \<open>x[k]\<close>.
  Strings are lists of 8-bit \<open>char\<close>s read as the code points U+0000 to U+00FF
  (Latin-1); every table below (case mapping, whitespace, printable characters)
  is CPython's for that range. Code points above U+00FF are not modelled.
\<close>

section \<open>Values and exceptions\<close>

text \<open>A Python float after \<open>json.loads\<close>: a finite value written as sign, the
  digits of its shortest repr and a decimal exponent (\<open>PFin neg m e\<close> is
  \<open>(-1)^neg * m * 10^e\<close>), an infinity (\<open>1e400\<close> parses to \<open>inf\<close>), or NaN.\<close>

datatype pyfloat = PFin bool nat int | PInf bool | PNaN

datatype jval =
    JNull
  | JBool bool
  | JInt int
  | JFloat pyfloat
  | JStr string
  | JList "jval list"
  | JObj "(string \<times> jval) list"

datatype py_exc =
    ValueError string
  | TypeError string
  | AttributeError string
  | OverflowError string
  | KeyError string
  | UnboundLocalError string
  | StoreError string
  | ProgrammingError string

text \<open>\<open>str(e)\<close> of an exception is its message (a \<open>KeyError\<close> shows the repr of the
  key, which the constructor already holds).\<close>

fun exc_message :: "py_exc \<Rightarrow> string" where
  "exc_message (ValueError m) = m"
| "exc_message (TypeError m) = m"
| "exc_message (AttributeError m) = m"
| "exc_message (OverflowError m) = m"
| "exc_message (KeyError m) = m"
| "exc_message (UnboundLocalError m) = m"
| "exc_message (StoreError m) = m"
| "exc_message (ProgrammingError m) = m"

text \<open>A name in single quotes, as CPython's messages print type and attribute names.\<close>

definition quoted :: "string \<Rightarrow> string" where
  "quoted s = CHR 0x27 # s @ [CHR 0x27]"

fun py_type_name :: "jval \<Rightarrow> string" where
  "py_type_name JNull = ''NoneType''"
| "py_type_name (JBool _) = ''bool''"
| "py_type_name (JInt _) = ''int''"
| "py_type_name (JFloat _) = ''float''"
| "py_type_name (JStr _) = ''str''"
| "py_type_name (JList _) = ''list''"
| "py_type_name (JObj _) = ''dict''"

text \<open>\<open>bool(x)\<close>: \<open>None\<close>, \<open>False\<close>, zero and empty containers are false; NaN is true.\<close>

fun py_truthy :: "jval \<Rightarrow> bool" where
  "py_truthy JNull = False"
| "py_truthy (JBool b) = b"
| "py_truthy (JInt n) = (n \<noteq> 0)"
| "py_truthy (JFloat (PFin _ m _)) = (m \<noteq> 0)"
| "py_truthy (JFloat _) = True"
| "py_truthy (JStr s) = (s \<noteq> [])"
| "py_truthy (JList xs) = (xs \<noteq> [])"
| "py_truthy (JObj ps) = (ps \<noteq> [])"

section \<open>Characters\<close>

text \<open>\<open>str.isspace\<close> and the \<open>\s\<close> class of \<open>re\<close> on str patterns
  (\<open>Py_UNICODE_ISSPACE\<close>): U+0009..U+000D, U+001C..U+0020, U+0085, U+00A0.\<close>

definition py_isspace :: "char \<Rightarrow> bool" where
  "py_isspace c \<longleftrightarrow> (9 \<le> cp c \<and> cp c \<le> 13) \<or> (28 \<le> cp c \<and> cp c \<le> 32) \<or> cp c = 133 \<or> cp c = 160"

text \<open>Whitespace that \<open>int()\<close> strips: CPython first maps every non-ASCII space
  (U+0085, U+00A0) to a blank, then skips the ASCII spaces of its ctype table
  (\<open>\t \n \v \f \r\<close> and blank); U+001C..U+001F are not among them.\<close>

definition int_ws :: "char \<Rightarrow> bool" where
  "int_ws c \<longleftrightarrow> (9 \<le> cp c \<and> cp c \<le> 13) \<or> cp c = 32 \<or> cp c = 133 \<or> cp c = 160"

text \<open>\<open>str.lower\<close> on Latin-1: A..Z and U+00C0..U+00DE except U+00D7 move up by 32.\<close>

definition is_upper :: "char \<Rightarrow> bool" where
  "is_upper c \<longleftrightarrow> (65 \<le> cp c \<and> cp c \<le> 90) \<or> (192 \<le> cp c \<and> cp c \<le> 222 \<and> cp c \<noteq> 215)"

definition py_lower_char :: "char \<Rightarrow> char" where
  "py_lower_char c = (if is_upper c then char_of (cp c + 32) else c)"

definition py_lower :: "string \<Rightarrow> string" where
  "py_lower s = map py_lower_char s"

section \<open>str() and repr()\<close>

definition string_of_int :: "int \<Rightarrow> string" where
  "string_of_int i = (if i < 0 then CHR ''-'' # dec_digits (nat (- i)) else dec_digits (nat i))"

definition hex_char :: "nat \<Rightarrow> char" where
  "hex_char d = ''0123456789abcdef'' ! d"

definition py_printable :: "char \<Rightarrow> bool" where
  "py_printable c \<longleftrightarrow> \<not> (cp c < 32 \<or> (127 \<le> cp c \<and> cp c \<le> 160) \<or> cp c = 173)"

text \<open>\<open>repr(s)\<close> of a str: single quotes unless the text has a single quote and no
  double quote; backslash, the quote, tab, newline and return escaped; other
  non-printable characters as \<open>\xNN\<close>.\<close>

definition repr_quote :: "string \<Rightarrow> char" where
  "repr_quote s = (if CHR 0x27 \<in> set s \<and> CHR 0x22 \<notin> set s then CHR 0x22 else CHR 0x27)"

definition repr_char :: "char \<Rightarrow> char \<Rightarrow> string" where
  "repr_char q c =
     (if c = q \<or> c = CHR 0x5C then [CHR 0x5C, c]
      else if c = CHR 0x09 then [CHR 0x5C, CHR ''t'']
      else if c = CHR 0x0A then [CHR 0x5C, CHR ''n'']
      else if c = CHR 0x0D then [CHR 0x5C, CHR ''r'']
      else if \<not> py_printable c then [CHR 0x5C, CHR ''x'', hex_char (cp c div 16), hex_char (cp c mod 16)]
      else [c])"

definition py_repr_str :: "string \<Rightarrow> string" where
  "py_repr_str s = (let q = repr_quote s in q # concat (map (repr_char q) s) @ [q])"

text \<open>\<open>repr(x)\<close> of a float (\<open>float_repr_style = 'short'\<close>): positional notation
  when the decimal point position \<open>decpt\<close> satisfies \<open>-4 < decpt \<le> 16\<close>,
  otherwise scientific with an exponent of at least two digits.\<close>

definition pad2 :: "string \<Rightarrow> string" where
  "pad2 s = (if length s < 2 then CHR ''0'' # s else s)"

definition float_repr :: "pyfloat \<Rightarrow> string" where
  "float_repr f = (case f of
     PNaN \<Rightarrow> ''nan''
   | PInf neg \<Rightarrow> (if neg then ''-inf'' else ''inf'')
   | PFin neg m e \<Rightarrow>
      (let ds = dec_digits m; n = length ds; decpt = int n + e;
           body =
             (if -4 < decpt \<and> decpt \<le> 16 then
                (if decpt \<le> 0 then ''0.'' @ replicate (nat (- decpt)) (CHR ''0'') @ ds
                 else if n \<le> nat decpt then ds @ replicate (nat decpt - n) (CHR ''0'') @ ''.0''
                 else take (nat decpt) ds @ ''.'' @ drop (nat decpt) ds)
              else
                (hd ds # (if 1 < n then CHR ''.'' # tl ds else [])) @ ''e'' @
                (if decpt - 1 < 0 then ''-'' else ''+'') @ pad2 (dec_digits (nat \<bar>decpt - 1\<bar>)))
       in (if neg then CHR ''-'' # body else body)))"

fun py_repr :: "jval \<Rightarrow> string" where
  "py_repr JNull = ''None''"
| "py_repr (JBool b) = (if b then ''True'' else ''False'')"
| "py_repr (JInt n) = string_of_int n"
| "py_repr (JFloat f) = float_repr f"
| "py_repr (JStr s) = py_repr_str s"
| "py_repr (JList xs) = CHR ''['' # py_join '', '' (map py_repr xs) @ '']''"
| "py_repr (JObj ps) =
     CHR ''{'' # py_join '', '' (map (\<lambda>(k, v). py_repr_str k @ '': '' @ py_repr v) ps) @ ''}''"

text \<open>\<open>str(x)\<close>, which is what an f-string interpolates: a str is itself.\<close>

fun py_str :: "jval \<Rightarrow> string" where
  "py_str (JStr s) = s"
| "py_str v = py_repr v"

section \<open>int()\<close>

text \<open>CPython's grammar for \<open>int(s)\<close> in base 10 after the surrounding
  whitespace: an optional sign, then digits with single underscores between
  digits. Leading zeros are allowed in base 10.\<close>

fun us_digits_ok :: "string \<Rightarrow> bool" where
  "us_digits_ok [] = False"
| "us_digits_ok [c] = is_digit c"
| "us_digits_ok (c # d # cs) =
     (is_digit c \<and> (if d = CHR ''_'' then cs \<noteq> [] \<and> is_digit (hd cs) \<and> us_digits_ok cs
                     else us_digits_ok (d # cs)))"

definition is_num_char :: "char \<Rightarrow> bool" where
  "is_num_char c \<longleftrightarrow> is_digit c \<or> c = CHR ''_''"

definition split_sign :: "string \<Rightarrow> bool \<times> string" where
  "split_sign t = (case t of
       c # r \<Rightarrow> (if c = CHR ''-'' then (True, r) else if c = CHR ''+'' then (False, r) else (False, t))
     | [] \<Rightarrow> (False, []))"

definition max_str_digits :: nat where
  "max_str_digits = 4300"

definition int_literal_error :: "string \<Rightarrow> py_exc" where
  "int_literal_error s = ValueError (''invalid literal for int() with base 10: '' @ py_repr_str s)"

definition int_limit_error :: "nat \<Rightarrow> py_exc" where
  "int_limit_error n = ValueError (''Exceeds the limit (4300 digits) for integer string conversion: value has ''
     @ dec_digits n @ '' digits; use sys.set_int_max_str_digits() to increase the limit'')"

text \<open>The digit-count limit is checked when the digit run has been scanned, before
  the check for trailing characters, as \<open>long_from_string_base\<close> does.\<close>

definition py_int_of_str :: "string \<Rightarrow> py_exc + int" where
  "py_int_of_str s =
     (let (neg, u) = split_sign (dropWhile int_ws s);
          body = takeWhile is_num_char u;
          rest = dropWhile is_num_char u;
          ds = filter is_digit body
      in if \<not> us_digits_ok body then Inl (int_literal_error s)
         else if max_str_digits < length ds then Inl (int_limit_error (length ds))
         else if \<not> (\<forall>c \<in> set rest. int_ws c) then Inl (int_literal_error s)
         else Inr ((if neg then -1 else 1) * int (digits_val ds)))"

text \<open>\<open>int(x)\<close> of a finite float truncates towards zero.\<close>

definition float_trunc :: "bool \<Rightarrow> nat \<Rightarrow> int \<Rightarrow> int" where
  "float_trunc neg m e =
     (let a = (if 0 \<le> e then int m * 10 ^ nat e else int (m div 10 ^ nat (- e)))
      in if neg then - a else a)"

definition int_type_error :: "jval \<Rightarrow> py_exc" where
  "int_type_error v = TypeError (''int() argument must be a string, a bytes-like object or a real number, not ''
     @ quoted (py_type_name v))"

fun py_int :: "jval \<Rightarrow> py_exc + int" where
  "py_int JNull = Inl (int_type_error JNull)"
| "py_int (JBool b) = Inr (if b then 1 else 0)"
| "py_int (JInt n) = Inr n"
| "py_int (JFloat PNaN) = Inl (ValueError ''cannot convert float NaN to integer'')"
| "py_int (JFloat (PInf _)) = Inl (OverflowError ''cannot convert float infinity to integer'')"
| "py_int (JFloat (PFin neg m e)) = Inr (float_trunc neg m e)"
| "py_int (JStr s) = py_int_of_str s"
| "py_int (JList xs) = Inl (int_type_error (JList xs))"
| "py_int (JObj ps) = Inl (int_type_error (JObj ps))"

section \<open>Dictionaries\<close>

text \<open>A JSON object parsed by \<open>json.loads\<close> is a dict in which a repeated key keeps
  its last value: lookup reads the pair list from the end.\<close>

definition dict_lookup :: "(string \<times> jval) list \<Rightarrow> string \<Rightarrow> jval option" where
  "dict_lookup ps k = map_of (rev ps) k"

definition dict_keys :: "(string \<times> jval) list \<Rightarrow> string list" where
  "dict_keys ps = map fst ps"

definition no_attr :: "jval \<Rightarrow> string \<Rightarrow> py_exc" where
  "no_attr v a = AttributeError (quoted (py_type_name v) @ '' object has no attribute '' @ quoted a)"

text \<open>\<open>d.get(k, default)\<close> on a dict, and \<open>x.get(k, default)\<close> on any value:
  only a dict has \<open>get\<close>.\<close>

definition dict_get :: "(string \<times> jval) list \<Rightarrow> string \<Rightarrow> jval \<Rightarrow> jval" where
  "dict_get ps k d = (case dict_lookup ps k of None \<Rightarrow> d | Some v \<Rightarrow> v)"

fun py_get :: "jval \<Rightarrow> string \<Rightarrow> jval \<Rightarrow> py_exc + jval" where
  "py_get (JObj ps) k d = Inr (dict_get ps k d)"
| "py_get v k d = Inl (no_attr v ''get'')"

text \<open>\<open>k in x\<close> for a str key: key membership in a dict, element equality in a list,
  substring in a str; other values are not iterable.\<close>

fun py_in :: "string \<Rightarrow> jval \<Rightarrow> py_exc + bool" where
  "py_in k (JObj ps) = Inr (k \<in> set (dict_keys ps))"
| "py_in k (JList xs) = Inr (JStr k \<in> set xs)"
| "py_in k (JStr s) = Inr (py_contains k s)"
| "py_in k v = Inl (TypeError (''argument of type '' @ quoted (py_type_name v) @ '' is not iterable''))"

text \<open>\<open>x[k]\<close> for a str key.\<close>

fun py_subscript :: "jval \<Rightarrow> string \<Rightarrow> py_exc + jval" where
  "py_subscript (JObj ps) k =
     (case dict_lookup ps k of None \<Rightarrow> Inl (KeyError (py_repr_str k)) | Some v \<Rightarrow> Inr v)"
| "py_subscript (JList xs) k = Inl (TypeError ''list indices must be integers or slices, not str'')"
| "py_subscript (JStr s) k = Inl (TypeError (''string indices must be integers, not '' @ quoted ''str''))"
| "py_subscript v k = Inl (TypeError (quoted (py_type_name v) @ '' object is not subscriptable''))"

section \<open>Lemmas\<close>

text \<open>\<open>lower\<close> leaves no upper-case letter behind, so it is idempotent.\<close>

lemma is_upper_py_lower_char: "\<not> is_upper (py_lower_char c)"
proof (cases "is_upper c")
  case True
  then have "cp c + 32 < 256" by (auto simp: is_upper_def)
  then have "cp (char_of (cp c + 32) :: char) = cp c + 32" by (simp add: of_char_of)
  with True show ?thesis by (auto simp: py_lower_char_def is_upper_def)
next
  case False
  then show ?thesis by (simp add: py_lower_char_def)
qed

lemma py_lower_char_idem [simp]: "py_lower_char (py_lower_char c) = py_lower_char c"
  using is_upper_py_lower_char [of c] by (simp add: py_lower_char_def [of "py_lower_char c"])

lemma py_lower_idem [simp]: "py_lower (py_lower s) = py_lower s"
  by (simp add: py_lower_def)

lemma py_lower_no_upper: "c \<in> set (py_lower s) \<Longrightarrow> \<not> is_upper c"
  by (auto simp: py_lower_def is_upper_py_lower_char)

lemma length_py_lower [simp]: "length (py_lower s) = length s"
  by (simp add: py_lower_def)

lemma eq_char_of_iff: "(c = char_of n) = (take_bit 8 n = of_char c)"
  by (metis char_of_eq_iff)

text \<open>A failed \<open>int(s)\<close> of a string is always a \<open>ValueError\<close>.\<close>

lemma us_digits_ok_digits: "ds \<noteq> [] \<Longrightarrow> \<forall>c \<in> set ds. is_digit c \<Longrightarrow> us_digits_ok ds"
proof (induction ds rule: us_digits_ok.induct)
  case (3 c d cs)
  then have "d \<noteq> CHR ''_''" by (auto simp: is_digit_def)
  with 3 show ?case by simp
qed simp_all

text \<open>\<open>int()\<close> of a run of at most 4300 decimal digits is its value.\<close>

lemma py_int_of_str_digits:
  assumes "ds \<noteq> []" and "\<forall>c \<in> set ds. is_digit c" and "length ds \<le> max_str_digits"
  shows "py_int_of_str ds = Inr (int (digits_val ds))"
proof -
  from assms(1) obtain c r where ds: "ds = c # r" by (cases ds) auto
  with assms(2) have c: "is_digit c" by simp
  then have "\<not> int_ws c" and "c \<noteq> CHR ''-''" and "c \<noteq> CHR ''+''"
    by (auto simp: is_digit_def int_ws_def)
  then have "split_sign (dropWhile int_ws ds) = (False, ds)" by (simp add: ds split_sign_def)
  moreover have tw: "takeWhile is_num_char ds = ds" and dw: "dropWhile is_num_char ds = []"
    using assms(2) by (simp_all add: is_num_char_def)
  moreover have fd: "filter is_digit ds = ds" using assms(2) by simp
  ultimately show ?thesis
    using us_digits_ok_digits [OF assms(1,2)] assms(3) by (simp add: py_int_of_str_def Let_def tw dw fd)
qed

lemma digits_val_less: "\<forall>c \<in> set ds. is_digit c \<Longrightarrow> digits_val ds < 10 ^ length ds"
proof (induction ds rule: rev_induct)
  case (snoc c ds)
  then have "digits_val ds < 10 ^ length ds" and "digit_val c < 10"
    by (auto simp: is_digit_def digit_val_def)
  then show ?case by simp
qed (simp add: digits_val_def)

text \<open>Whatever \<open>int()\<close> of a string returns is below \<open>10 ^ 4300\<close> in absolute value.\<close>

lemma py_int_of_str_bound:
  assumes "py_int_of_str s = Inr v"
  shows "\<bar>v\<bar> < 10 ^ max_str_digits"
proof -
  obtain neg u where su: "split_sign (dropWhile int_ws s) = (neg, u)" by (rule prod.exhaust)
  let ?ds = "filter is_digit (takeWhile is_num_char u)"
  from assms su have len: "length ?ds \<le> max_str_digits"
    and v: "v = (if neg then -1 else 1) * int (digits_val ?ds)"
    by (auto simp: py_int_of_str_def Let_def split: if_splits)
  have "digits_val ?ds < 10 ^ length ?ds" by (rule digits_val_less) simp
  also have "\<dots> \<le> 10 ^ max_str_digits" using len by (rule power_increasing) simp
  finally have "int (digits_val ?ds) < int (10 ^ max_str_digits)" by (simp only: of_nat_less_iff)
  then show ?thesis by (simp add: v)
qed

lemma py_int_of_str_Inl: "py_int_of_str s = Inl e \<Longrightarrow> \<exists>m. e = ValueError m"
  by (auto simp: py_int_of_str_def Let_def int_literal_error_def int_limit_error_def
      split: prod.splits if_splits)

text \<open>A key written last is the one a dict built from the pairs holds.\<close>

lemma dict_get_snoc:
  "dict_get (ps @ [(k, v)]) k' d = (if k' = k then v else dict_get ps k' d)"
  by (simp add: dict_get_def dict_lookup_def)

lemma dict_keys_snoc [simp]: "set (dict_keys (ps @ [(k, v)])) = insert k (set (dict_keys ps))"
  by (simp add: dict_keys_def)

lemma dict_lookup_Some_iff: "(\<exists>v. dict_lookup ps k = Some v) = (k \<in> set (dict_keys ps))"
proof -
  have "(\<exists>v. map_of (rev ps) k = Some v) = (map_of (rev ps) k \<noteq> None)" by auto
  also have "\<dots> = (k \<in> fst ` set ps)" by (simp add: map_of_eq_None_iff)
  finally show ?thesis by (simp add: dict_lookup_def dict_keys_def)
qed

text \<open>The equations that evaluate the runtime model on concrete values.\<close>

declare is_digit_def [py_eval] digit_val_def [py_eval] digits_val_def [py_eval] digit_char_def [py_eval]
  dec_digits.simps [py_eval] py_isspace_def [py_eval] int_ws_def [py_eval] is_upper_def [py_eval]
  py_lower_char_def [py_eval] py_lower_def [py_eval] char_of_eq_iff [py_eval] string_of_int_def [py_eval]
  hex_char_def [py_eval] py_printable_def [py_eval] repr_quote_def [py_eval] repr_char_def [py_eval]
  py_repr_str_def [py_eval] pad2_def [py_eval] float_repr_def [py_eval] quoted_def [py_eval]
  is_num_char_def [py_eval] split_sign_def [py_eval] max_str_digits_def [py_eval]
  int_literal_error_def [py_eval] int_limit_error_def [py_eval] py_int_of_str_def [py_eval]
  float_trunc_def [py_eval] int_type_error_def [py_eval] dict_lookup_def [py_eval] dict_get_def [py_eval]
  dict_keys_def [py_eval] no_attr_def [py_eval] Let_def [py_eval] eq_char_of_iff [py_eval]

end
