(* ===== verification/PyRe.thy ===== *)
theory PyRe
  imports PyRuntime
begin

text \<open>
  The fragment of Python's \<open>re\<close> module the handlers use: \<open>re.match\<close> and
  \<open>re.findall\<close> over patterns built from anchors, single-character classes,
  alternation, capturing groups and greedy single-character repeats. The
  matcher is the backtracking search of CPython's \<open>sre\<close> engine in
  continuation-passing style: a continuation receives the position reached, the
  rest of the subject and the group marks, and the first success in the engine's
  priority order (left alternative first, longest repeat first) is the result.
  A pattern string is translated into a \<open>regex\<close> value by hand; \<open>re.compile\<close>
  itself is not modelled.
\<close>

section \<open>Syntax\<close>

datatype cls =
    CDigit            \<comment> \<open>\<open>\d\<close>: on Latin-1, the digits 0..9\<close>
  | CSpace            \<comment> \<open>\<open>\s\<close>: \<open>str.isspace\<close>\<close>
  | CChar char        \<comment> \<open>a literal character\<close>
  | CSet "char list"  \<comment> \<open>\<open>[...]\<close> listing characters\<close>
  | CRange char char  \<comment> \<open>\<open>[a-b]\<close>\<close>

datatype regex =
    REmpty
  | RBol                          \<comment> \<open>\<open>^\<close>\<close>
  | REol                          \<comment> \<open>\<open>$\<close>: end, or before a final newline\<close>
  | RAtom cls
  | RSeq regex regex
  | RAlt regex regex              \<comment> \<open>\<open>r1|r2\<close>\<close>
  | RGroup nat regex              \<comment> \<open>\<open>( ... )\<close>, numbered\<close>
  | RRep cls nat "nat option"     \<comment> \<open>greedy \<open>c{lo,hi}\<close>: \<open>*\<close>, \<open>+\<close>, \<open>?\<close>\<close>

type_synonym marks = "nat \<Rightarrow> (nat \<times> nat) option"

fun cls_match :: "cls \<Rightarrow> char \<Rightarrow> bool" where
  "cls_match CDigit c = is_digit c"
| "cls_match CSpace c = py_isspace c"
| "cls_match (CChar d) c = (c = d)"
| "cls_match (CSet ds) c = (c \<in> set ds)"
| "cls_match (CRange a b) c = (cp a \<le> cp c \<and> cp c \<le> cp b)"

text \<open>A literal string as a pattern.\<close>

fun rlit :: "string \<Rightarrow> regex" where
  "rlit [] = REmpty"
| "rlit [x] = RAtom (CChar x)"
| "rlit (x # y # zs) = RSeq (RAtom (CChar x)) (rlit (y # zs))"

section \<open>The backtracking matcher\<close>

text \<open>A greedy repeat counts how many characters of the class follow (at most
  \<open>hi\<close>) and then tries the continuation from the longest count down to \<open>lo\<close>.\<close>

definition rep_count :: "cls \<Rightarrow> nat option \<Rightarrow> string \<Rightarrow> nat" where
  "rep_count a hi s = (let n = length (takeWhile (cls_match a) s) in
     case hi of None \<Rightarrow> n | Some h \<Rightarrow> min h n)"

fun rep_try :: "(nat \<Rightarrow> string \<Rightarrow> marks \<Rightarrow> 'a option) \<Rightarrow> nat \<Rightarrow> string \<Rightarrow> marks \<Rightarrow> nat \<Rightarrow> nat \<Rightarrow> 'a option" where
  "rep_try k p s m lo n =
     (case k (p + n) (drop n s) m of
        Some x \<Rightarrow> Some x
      | None \<Rightarrow> if n \<le> lo then None else rep_try k p s m lo (n - 1))"

declare rep_try.simps [simp del]

fun rmatch :: "regex \<Rightarrow> nat \<Rightarrow> string \<Rightarrow> marks \<Rightarrow> (nat \<Rightarrow> string \<Rightarrow> marks \<Rightarrow> 'a option) \<Rightarrow> 'a option" where
  "rmatch REmpty p s m k = k p s m"
| "rmatch RBol p s m k = (if p = 0 then k p s m else None)"
| "rmatch REol p s m k = (if s = [] \<or> s = [CHR 0x0A] then k p s m else None)"
| "rmatch (RAtom a) p s m k =
     (case s of [] \<Rightarrow> None | x # s' \<Rightarrow> if cls_match a x then k (Suc p) s' m else None)"
| "rmatch (RSeq r1 r2) p s m k = rmatch r1 p s m (\<lambda>p' s' m'. rmatch r2 p' s' m' k)"
| "rmatch (RAlt r1 r2) p s m k =
     (case rmatch r1 p s m k of None \<Rightarrow> rmatch r2 p s m k | Some x \<Rightarrow> Some x)"
| "rmatch (RGroup g r) p s m k = rmatch r p s m (\<lambda>p' s' m'. k p' s' (m'(g \<mapsto> (p, p'))))"
| "rmatch (RRep a lo hi) p s m k =
     (let n = rep_count a hi s in if n < lo then None else rep_try k p s m lo n)"

text \<open>The continuation that accepts: the end position and the marks.\<close>

definition accept :: "nat \<Rightarrow> string \<Rightarrow> marks \<Rightarrow> (nat \<times> marks) option" where
  "accept p s m = Some (p, m)"

text \<open>\<open>re.match(pattern, s)\<close>: an anchored attempt at position 0.\<close>

definition re_match :: "regex \<Rightarrow> string \<Rightarrow> (nat \<times> marks) option" where
  "re_match r s = rmatch r 0 s Map.empty accept"

text \<open>The text of group \<open>g\<close>, empty when the group did not take part.\<close>

definition group_text :: "string \<Rightarrow> marks \<Rightarrow> nat \<Rightarrow> string" where
  "group_text s m g = (case m g of None \<Rightarrow> [] | Some (i, j) \<Rightarrow> take (j - i) (drop i s))"

text \<open>\<open>re.findall\<close> for a pattern with one group: try every start position from
  left to right, record group 1 of each match and resume at its end (one further
  on after an empty match).\<close>

function findall_from :: "regex \<Rightarrow> string \<Rightarrow> nat \<Rightarrow> string list" where
  "findall_from r s i =
     (if length s < i then []
      else case rmatch r i (drop i s) Map.empty accept of
        None \<Rightarrow> findall_from r s (Suc i)
      | Some (j, m) \<Rightarrow> group_text s m 1 # findall_from r s (if j \<le> i then Suc i else j))"
  by pat_completeness auto
termination
  by (relation "measure (\<lambda>(r, s, i). Suc (length s) - i)") auto

declare findall_from.simps [simp del]

definition findall :: "regex \<Rightarrow> string \<Rightarrow> string list" where
  "findall r s = findall_from r s 0"

section \<open>General facts\<close>

text \<open>Whatever a match returns, the continuation returned it after consuming a
  part of the subject: matches stay inside the string.\<close>

lemma rep_try_consumes:
  "rep_try k p s m lo n = Some x \<Longrightarrow> \<exists>j \<le> n. k (p + j) (drop j s) m = Some x"
proof (induction n)
  case 0
  then show ?case by (simp add: rep_try.simps split: option.splits)
next
  case (Suc n)
  show ?case
  proof (cases "k (p + Suc n) (drop (Suc n) s) m")
    case None
    with Suc.prems have "rep_try k p s m lo n = Some x"
      by (simp add: rep_try.simps split: if_splits)
    with Suc.IH show ?thesis using le_SucI by blast
  next
    case (Some y)
    with Suc.prems show ?thesis by (auto simp: rep_try.simps)
  qed
qed

lemma rep_try_0 [simp]: "rep_try k p s m lo 0 = k p s m"
  by (subst rep_try.simps) (simp split: option.split)

lemma rep_try_Suc [simp]:
  "rep_try k p s m lo (Suc n) = (case k (p + Suc n) (drop (Suc n) s) m of
     Some x \<Rightarrow> Some x | None \<Rightarrow> if Suc n \<le> lo then None else rep_try k p s m lo n)"
  by (subst rep_try.simps) (simp only: diff_Suc_1)

lemma rep_count_le: "rep_count a hi s \<le> length s"
proof -
  have "length (takeWhile (cls_match a) s) \<le> length s" by (rule length_takeWhile_le)
  then show ?thesis by (auto simp: rep_count_def Let_def split: option.splits)
qed

lemma rmatch_consumes:
  "rmatch r p s m k = Some x \<Longrightarrow> \<exists>n m'. n \<le> length s \<and> k (p + n) (drop n s) m' = Some x"
proof (induction r arbitrary: p s m k x)
  case REmpty
  then show ?case by (metis add_0_right drop0 le0 rmatch.simps(1))
next
  case RBol
  then show ?case by (metis add_0_right drop0 le0 option.distinct(1) rmatch.simps(2))
next
  case REol
  then show ?case by (metis add_0_right drop0 le0 option.distinct(1) rmatch.simps(3))
next
  case (RAtom a)
  then show ?case
    by (cases s) (auto split: if_splits intro!: exI [of _ 1])
next
  case (RSeq r1 r2)
  from RSeq.prems obtain n1 m1 where n1: "n1 \<le> length s"
    and k1: "rmatch r2 (p + n1) (drop n1 s) m1 k = Some x"
    using RSeq.IH(1) by fastforce
  from RSeq.IH(2) [OF k1] obtain n2 m2 where "n2 \<le> length (drop n1 s)"
    and "k (p + n1 + n2) (drop n2 (drop n1 s)) m2 = Some x" by blast
  with n1 show ?case by (intro exI [of _ "n1 + n2"] exI [of _ m2]) (simp add: ac_simps)
next
  case (RAlt r1 r2)
  then show ?case by (auto split: option.splits)
next
  case (RGroup g r)
  then show ?case by fastforce
next
  case (RRep a lo hi)
  then have "rep_try k p s m lo (rep_count a hi s) = Some x"
    by (simp add: Let_def split: if_splits)
  then obtain j where "j \<le> rep_count a hi s" and "k (p + j) (drop j s) m = Some x"
    by (blast dest: rep_try_consumes)
  moreover have "rep_count a hi s \<le> length s" by (rule rep_count_le)
  ultimately show ?case by (meson order_trans)
qed

text \<open>A literal string matches exactly its prefix occurrence; a greedy repeat whose
  continuation fails on every further character of the class takes the whole run.\<close>

lemma rmatch_rlit:
  "kw \<noteq> [] \<Longrightarrow> rmatch (rlit kw) p t m k =
     (if prefix kw t then k (p + length kw) (drop (length kw) t) m else None)"
proof (induction kw arbitrary: p t rule: rlit.induct)
  case (2 x)
  then show ?case by (cases t) auto
next
  case (3 x y zs)
  then show ?case by (cases t) (auto simp: add.commute add.left_commute)
qed simp

lemma rep_try_last:
  "(\<forall>j. lo \<le> j \<and> j < n \<longrightarrow> k (p + j) (drop j t) m = None) \<Longrightarrow>
   rep_try k p t m lo n = k (p + n) (drop n t) m"
proof (induction n)
  case 0
  then show ?case by simp
next
  case (Suc n)
  show ?case
  proof (cases "k (p + Suc n) (drop (Suc n) t) m")
    case None
    show ?thesis
    proof (cases "Suc n \<le> lo")
      case True
      with None show ?thesis by (simp add: rep_try.simps)
    next
      case False
      with Suc.prems have "k (p + n) (drop n t) m = None" by auto
      moreover from Suc.prems have "rep_try k p t m lo n = k (p + n) (drop n t) m"
        by (intro Suc.IH) auto
      ultimately show ?thesis using None False by (simp add: rep_try.simps [of k p t m lo "Suc n"])
    qed
  next
    case (Some x)
    then show ?thesis by (simp add: rep_try.simps)
  qed
qed

lemma rmatch_rep_greedy:
  assumes fails: "\<And>q t' m'. t' \<noteq> [] \<Longrightarrow> cls_match a (hd t') \<Longrightarrow> k q t' m' = None"
  shows "rmatch (RRep a lo None) p t m k =
    (if length (takeWhile (cls_match a) t) < lo then None
     else k (p + length (takeWhile (cls_match a) t)) (dropWhile (cls_match a) t) m)"
proof -
  let ?n = "length (takeWhile (cls_match a) t)"
  have "\<forall>j. lo \<le> j \<and> j < ?n \<longrightarrow> k (p + j) (drop j t) m = None"
  proof (intro allI impI)
    fix j assume "lo \<le> j \<and> j < ?n"
    then have j: "j < ?n" by simp
    then have "j < length t" using length_takeWhile_le [of "cls_match a" t] by linarith
    then have "drop j t \<noteq> []" and "hd (drop j t) = t ! j" by (simp_all add: hd_drop_conv_nth)
    moreover have "cls_match a (t ! j)"
      using takeWhile_nth [OF j] nth_mem [OF j] set_takeWhileD by metis
    ultimately show "k (p + j) (drop j t) m = None" using fails by simp
  qed
  then show ?thesis
    by (simp add: rep_count_def rep_try_last dropWhile_eq_drop [symmetric])
qed

declare findall_from.simps [re_eval] rep_try.simps [re_eval]

declare rep_count_def [py_eval] re_match_def [py_eval] accept_def [py_eval]
  group_text_def [py_eval] findall_def [py_eval]

end
