(* ===== verification/Http.thy ===== *)
theory Http
  imports Complex_Main PyRuntime "HOL-Library.Char_ord" "HOL-Library.List_Lexorder" "HOL-Library.Product_Lexorder"
begin

text \<open>
  What the HTTP handlers of both cloud functions share: the request as
  \<open>functions_framework\<close> hands it over (method and the result of
  \<open>request.get_json()\<close>), the response (a JSON body with a status, or an
  exception that escapes the function, which the framework answers with 500),
  the guard \<open>if not request_json or 'a' not in request_json or ...\<close> both
  handlers open with, and the part of \<open>sqlite3\<close> they use: the values of SQLite's
  storage classes, the binding of Python values to statement parameters, the
  comparisons of the \<open>WHERE\<close> and \<open>ORDER BY\<close> clauses, and whether the
  connection was closed.
\<close>

section \<open>Requests and responses\<close>

text \<open>\<open>request.get_json()\<close> is the parsed body, \<open>JNull\<close> when it is \<open>None\<close>.\<close>

record http_request =
  req_method :: string
  req_json :: jval

datatype response =
    Response jval nat     \<comment> \<open>\<open>return jsonify(body), status\<close> (status 200 when omitted)\<close>
  | Uncaught py_exc       \<comment> \<open>an exception leaves the handler\<close>

text \<open>\<open>{'error': msg}\<close>, as \<open>jsonify\<close> and \<open>json.dumps\<close> build it.\<close>

definition error_body :: "string \<Rightarrow> jval" where
  "error_body msg = JObj [(''error'', JStr msg)]"

text \<open>\<open>'k1' not in j or 'k2' not in j or ...\<close>, evaluated left to right and
  stopping at the first missing key; \<open>in\<close> raises on values that are not
  iterable.\<close>

fun missing_any :: "jval \<Rightarrow> string list \<Rightarrow> py_exc + bool" where
  "missing_any j [] = Inr False"
| "missing_any j (k # ks) = bind_sum (py_in k j) (\<lambda>b. if \<not> b then Inr True else missing_any j ks)"

text \<open>\<open>not request_json or 'k1' not in request_json or ...\<close>.\<close>

definition request_incomplete :: "jval \<Rightarrow> string list \<Rightarrow> py_exc + bool" where
  "request_incomplete j ks = (if \<not> py_truthy j then Inr True else missing_any j ks)"

section \<open>SQLite values\<close>

text \<open>The storage classes NULL, INTEGER, REAL and TEXT (BLOB is not produced by
  anything the handlers bind or read).\<close>

datatype sqlval = SNull | SInt int | SReal pyfloat | SText string

text \<open>Binding a Python value as statement parameter number \<open>i\<close> (\<open>sqlite3\<close> of
  CPython 3.12): \<open>None\<close>, \<open>int\<close> (a \<open>bool\<close> is an \<open>int\<close>), \<open>float\<close> and
  \<open>str\<close> are accepted; an \<open>int\<close> outside 64 bits raises \<open>OverflowError\<close>, other
  types raise \<open>ProgrammingError\<close>; a NaN float is stored as NULL.\<close>

fun bind_param :: "nat \<Rightarrow> jval \<Rightarrow> py_exc + sqlval" where
  "bind_param i JNull = Inr SNull"
| "bind_param i (JBool b) = Inr (SInt (if b then 1 else 0))"
| "bind_param i (JInt n) =
     (if n < - (2 ^ 63) \<or> 2 ^ 63 \<le> n then Inl (OverflowError ''Python int too large to convert to SQLite INTEGER'')
      else Inr (SInt n))"
| "bind_param i (JFloat PNaN) = Inr SNull"
| "bind_param i (JFloat f) = Inr (SReal f)"
| "bind_param i (JStr s) = Inr (SText s)"
| "bind_param i v = Inl (ProgrammingError (''Error binding parameter '' @ dec_digits i @ '': type ''
     @ quoted (py_type_name v) @ '' is not supported''))"

text \<open>A value read back from a row, as \<open>sqlite3\<close> converts it to Python.\<close>

fun sql_to_py :: "sqlval \<Rightarrow> jval" where
  "sql_to_py SNull = JNull"
| "sql_to_py (SInt n) = JInt n"
| "sql_to_py (SReal f) = JFloat f"
| "sql_to_py (SText s) = JStr s"

section \<open>Comparison\<close>

text \<open>The numeric value of a float: \<open>-inf\<close> below, \<open>+inf\<close> above every finite
  value, written as a pair compared lexicographically.\<close>

fun float_key :: "pyfloat \<Rightarrow> int \<times> rat" where
  "float_key (PFin neg m e) =
     (0, (if neg then -1 else 1) * of_nat m * (if 0 \<le> e then 10 ^ nat e else 1 / 10 ^ nat (- e)))"
| "float_key (PInf neg) = (if neg then -1 else 1, 0)"
| "float_key PNaN = (0, 0)"

text \<open>SQLite's order of values: NULL first, then INTEGER and REAL by numeric
  value, then TEXT by the BINARY collation (\<open>memcmp\<close> of the UTF-8 bytes, which
  orders strings as their code points do).\<close>

fun sql_key :: "sqlval \<Rightarrow> nat \<times> (int \<times> rat) \<times> string" where
  "sql_key SNull = (0, (0, 0), [])"
| "sql_key (SInt n) = (1, (0, of_int n), [])"
| "sql_key (SReal f) = (1, float_key f, [])"
| "sql_key (SText s) = (2, (0, 0), s)"

definition sql_le :: "sqlval \<Rightarrow> sqlval \<Rightarrow> bool" where
  "sql_le x y \<longleftrightarrow> sql_key x \<le> sql_key y"

text \<open>\<open>x = y\<close> in a \<open>WHERE\<close> clause: NULL equals nothing; numbers compare by
  value, text by bytes; a number never equals a text (the columns are taken
  without type affinity, no schema being part of the repository).\<close>

fun sql_eq :: "sqlval \<Rightarrow> sqlval \<Rightarrow> bool" where
  "sql_eq SNull y = False"
| "sql_eq x SNull = False"
| "sql_eq (SText s) (SText t) = (s = t)"
| "sql_eq (SText s) y = False"
| "sql_eq x (SText t) = False"
| "sql_eq x y = (sql_key x = sql_key y)"

text \<open>The connection of a handler: never opened, opened and left to the garbage
  collector, or closed by \<open>conn.close()\<close>.\<close>

datatype conn_state = NotOpened | OpenLeft | Closed

section \<open>Lemmas\<close>

lemma sql_le_refl [simp]: "sql_le x x"
  by (simp add: sql_le_def)

lemma sql_le_trans: "sql_le x y \<Longrightarrow> sql_le y z \<Longrightarrow> sql_le x z"
  unfolding sql_le_def by (rule order_trans)

lemma sql_le_total: "sql_le x y \<or> sql_le y x"
  unfolding sql_le_def by (rule linear)

lemma request_incomplete_falsy: "\<not> py_truthy j \<Longrightarrow> request_incomplete j ks = Inr True"
  by (simp add: request_incomplete_def)

lemma missing_any_JObj:
  "missing_any (JObj ps) ks = Inr (\<exists>k \<in> set ks. k \<notin> set (dict_keys ps))"
  by (induction ks) auto

end
