(* ===== verification/Onboarding.thy ===== *)
theory Onboarding
  imports PyRe Http
begin

text \<open>
  The structured onboarding handler of \<open>src/backend/cloud_functions/onboard_patient/main.py\<close>:
  \<open>process_structured_onboarding(request_data, headers)\<close> (lines 94--206) with the
  module constant \<open>VALID_FREQUENCIES\<close> (lines 30--42). The request body is a
  \<open>jval\<close>; the Firestore collection \<open>patients\<close> is an association list from
  document id to \<open>patient_doc\<close>, written by \<open>AList.update\<close> as
  \<open>document(id).set(doc)\<close> creates or overwrites; the environment supplies the
  result of \<open>uuid.uuid4()\<close>, of \<open>datetime.now()\<close> and whether the Firestore
  write raises. The result is the triple the function returns (JSON body, status,
  headers) and the new collection.
\<close>

section \<open>Module constants\<close>

definition VALID_FREQUENCIES :: "string list" where
  "VALID_FREQUENCIES =
     [''Daily'', ''daily'', ''2 times a week'', ''3 times a week'', ''4 times a week'',
      ''5 times a week'', ''6 times a week'', ''everyday'', ''every other day'',
      ''Everyday'', ''Every other day'']"

definition REQUIRED_FIELDS :: "string list" where
  "REQUIRED_FIELDS = [''name'', ''age'', ''injury'', ''pain_level'', ''frequency'',
     ''time_of_day'', ''notification_time'', ''goal'']"

text \<open>The pattern \<open>^([01]\d|2[0-3]):([0-5]\d)$\<close> of line 168.\<close>

definition notification_re :: regex where
  "notification_re =
     RSeq RBol
      (RSeq (RGroup 1 (RAlt (RSeq (RAtom (CSet ''01'')) (RAtom CDigit))
                            (RSeq (RAtom (CChar CHR ''2'')) (RAtom (CRange CHR ''0'' CHR ''3'')))))
      (RSeq (RAtom (CChar CHR '':''))
      (RSeq (RGroup 2 (RSeq (RAtom (CRange CHR ''0'' CHR ''5'')) (RAtom CDigit)))
       REol)))"

section \<open>Documents, store and environment\<close>

record datetime =
  dt_year :: nat
  dt_month :: nat
  dt_day :: nat
  dt_hour :: nat
  dt_minute :: nat
  dt_second :: nat
  dt_microsecond :: nat

text \<open>The document written at lines 178--191, field by field.\<close>

record patient_doc =
  doc_id :: string
  doc_name :: jval
  doc_age :: int
  doc_pain_description :: jval
  doc_pain_severity :: int
  doc_exercise_frequency :: string
  doc_preferred_time :: jval
  doc_notification_time :: string
  doc_goal :: jval
  doc_fcm_token :: jval
  doc_created_at :: datetime
  doc_updated_at :: datetime

type_synonym patients = "(string \<times> patient_doc) list"

record onboard_env =
  env_uuid :: string
  env_now :: datetime
  env_put_error :: "string option"

text \<open>The returned triple: JSON body (before \<open>json.dumps\<close>), status code, headers.\<close>

datatype 'h http_result = HttpResult jval nat 'h

fun status_of :: "'h http_result \<Rightarrow> nat" where
  "status_of (HttpResult _ st _) = st"

fun body_of :: "'h http_result \<Rightarrow> jval" where
  "body_of (HttpResult b _ _) = b"

section \<open>Validation steps\<close>

text \<open>The outcome of one step of the handler: go on with a value, return a 400
  with a message, or raise an exception that the outer \<open>except Exception\<close>
  turns into a 500.\<close>

datatype 'a check = Pass 'a | Reject string | Raise py_exc

fun check_bind :: "'a check \<Rightarrow> ('a \<Rightarrow> 'b check) \<Rightarrow> 'b check" where
  "check_bind (Pass a) f = f a"
| "check_bind (Reject m) f = Reject m"
| "check_bind (Raise e) f = Raise e"

record intake =
  in_name :: jval
  in_age :: jval
  in_injury :: jval
  in_pain_level :: jval
  in_frequency :: jval
  in_time_of_day :: jval
  in_notification_time :: jval
  in_goal :: jval
  in_fcm_token :: jval

text \<open>Lines 110--118: nine \<open>request_data.get\<close> calls; only a dict has \<open>get\<close>.\<close>

fun read_intake :: "jval \<Rightarrow> intake check" where
  "read_intake (JObj ps) =
     (let g = dict_get ps in
      Pass \<lparr>in_name = g ''name'' JNull, in_age = g ''age'' JNull, in_injury = g ''injury'' JNull,
            in_pain_level = g ''pain_level'' JNull, in_frequency = g ''frequency'' JNull,
            in_time_of_day = g ''time_of_day'' JNull,
            in_notification_time = g ''notification_time'' JNull, in_goal = g ''goal'' JNull,
            in_fcm_token = g ''fcm_token'' (JStr [])\<rparr>)"
| "read_intake v = Raise (no_attr v ''get'')"

text \<open>Lines 121--127: the required keys that are absent, in the order of the list.\<close>

fun missing_fields :: "jval \<Rightarrow> string list" where
  "missing_fields (JObj ps) = filter (\<lambda>f. f \<notin> set (dict_keys ps)) REQUIRED_FIELDS"
| "missing_fields v = []"

definition missing_message :: "string list \<Rightarrow> string" where
  "missing_message fs = ''Missing required fields: '' @ py_join '', '' fs"

text \<open>Lines 129--151: \<open>int()\<close> and the range check, inside
  \<open>try ... except (ValueError, TypeError)\<close>; any other exception of \<open>int()\<close>
  (an \<open>OverflowError\<close> for an infinite float) escapes to the outer handler.
  The range message shows the converted integer, the type message the value
  as received.\<close>

definition validate_int_field :: "string \<Rightarrow> int \<Rightarrow> int \<Rightarrow> jval \<Rightarrow> int check" where
  "validate_int_field label lo hi v =
     (let range = string_of_int lo @ '' and '' @ string_of_int hi in
      case py_int v of
        Inr n \<Rightarrow> (if lo \<le> n \<and> n \<le> hi then Pass n
                  else Reject (label @ '' must be between '' @ range @ '', got '' @ string_of_int n))
      | Inl (ValueError _) \<Rightarrow> Reject (label @ '' must be an integer between '' @ range @ '', got '' @ py_str v)
      | Inl (TypeError _) \<Rightarrow> Reject (label @ '' must be an integer between '' @ range @ '', got '' @ py_str v)
      | Inl e \<Rightarrow> Raise e)"

definition frequency_message :: string where
  "frequency_message = ''Invalid frequency value. Must be one of: '' @ py_join '', '' VALID_FREQUENCIES"

text \<open>Lines 153--165: \<open>None\<close> becomes the empty string, anything else must have
  \<open>lower\<close>; the lower-cased text must be an element of the list.\<close>

fun frequency_text :: "jval \<Rightarrow> string check" where
  "frequency_text JNull = Pass []"
| "frequency_text (JStr s) = Pass s"
| "frequency_text v = Raise (no_attr v ''lower'')"

definition validate_frequency :: "jval \<Rightarrow> string check" where
  "validate_frequency v =
     check_bind (frequency_text v) (\<lambda>s.
       let fl = py_lower s in
       if fl \<in> set VALID_FREQUENCIES then Pass fl else Reject frequency_message)"

text \<open>Lines 167--171: \<open>re.match\<close> accepts only strings.\<close>

fun validate_notification_time :: "jval \<Rightarrow> string check" where
  "validate_notification_time (JStr s) =
     (if re_match notification_re s \<noteq> None then Pass s
      else Reject (''Invalid notification time format. Must be HH:MM in 24-hour format, got '' @ s))"
| "validate_notification_time v =
     Raise (TypeError (''expected string or bytes-like object, got '' @ quoted (py_type_name v)))"

text \<open>The values the document is built from once every check has passed.\<close>

record validated =
  v_intake :: intake
  v_age :: int
  v_pain :: int
  v_frequency :: string
  v_notification_time :: string

definition validate_request :: "jval \<Rightarrow> validated check" where
  "validate_request rq =
     check_bind (read_intake rq) (\<lambda>i.
     if missing_fields rq \<noteq> [] then Reject (missing_message (missing_fields rq)) else
     check_bind (validate_int_field ''Age'' 5 100 (in_age i)) (\<lambda>age.
     check_bind (validate_int_field ''Pain level'' 1 10 (in_pain_level i)) (\<lambda>pain.
     check_bind (validate_frequency (in_frequency i)) (\<lambda>fl.
     check_bind (validate_notification_time (in_notification_time i)) (\<lambda>nt.
       Pass \<lparr>v_intake = i, v_age = age, v_pain = pain, v_frequency = fl,
             v_notification_time = nt\<rparr>)))))"

section \<open>The handler\<close>

definition make_patient_doc :: "string \<Rightarrow> datetime \<Rightarrow> validated \<Rightarrow> patient_doc" where
  "make_patient_doc pid now v =
     \<lparr>doc_id = pid, doc_name = in_name (v_intake v), doc_age = v_age v,
      doc_pain_description = in_injury (v_intake v), doc_pain_severity = v_pain v,
      doc_exercise_frequency = v_frequency v, doc_preferred_time = in_time_of_day (v_intake v),
      doc_notification_time = v_notification_time v, doc_goal = in_goal (v_intake v),
      doc_fcm_token = in_fcm_token (v_intake v), doc_created_at = now, doc_updated_at = now\<rparr>"

definition internal_error :: "py_exc \<Rightarrow> 'h \<Rightarrow> 'h http_result" where
  "internal_error e h = HttpResult (error_body (''Failed to onboard patient: '' @ exc_message e)) 500 h"

definition success_body :: "string \<Rightarrow> jval" where
  "success_body pid = JObj [(''status'', JStr ''success''),
     (''message'', JStr ''Patient onboarded successfully''), (''patient_id'', JStr pid)]"

definition process_structured_onboarding ::
  "onboard_env \<Rightarrow> jval \<Rightarrow> 'h \<Rightarrow> patients \<Rightarrow> 'h http_result \<times> patients" where
  "process_structured_onboarding env rq h db =
     (case validate_request rq of
        Reject msg \<Rightarrow> (HttpResult (error_body msg) 400 h, db)
      | Raise e \<Rightarrow> (internal_error e h, db)
      | Pass v \<Rightarrow>
          (let pid = env_uuid env; doc = make_patient_doc pid (env_now env) v in
           case env_put_error env of
             Some msg \<Rightarrow> (internal_error (StoreError msg) h, db)
           | None \<Rightarrow> (HttpResult (success_body pid) 200 h, AList.update pid doc db)))"

section \<open>Example requests\<close>

text \<open>Concrete inputs at which the theorems below are instantiated.\<close>

definition ex_now :: datetime where
  "ex_now = \<lparr>dt_year = 2026, dt_month = 11, dt_day = 9, dt_hour = 8, dt_minute = 30, dt_second = 0,
     dt_microsecond = 0\<rparr>"

definition ex_env :: onboard_env where
  "ex_env = \<lparr>env_uuid = ''7f3e'', env_now = ex_now, env_put_error = None\<rparr>"

definition ex_fields :: "(string \<times> jval) list" where
  "ex_fields = [(''name'', JStr ''Ann''), (''age'', JInt 34), (''injury'', JStr ''knee''),
     (''pain_level'', JInt 6), (''frequency'', JStr ''Daily''), (''time_of_day'', JStr ''morning''),
     (''notification_time'', JStr ''09:30''), (''goal'', JStr ''climb stairs'')]"

definition ex_request :: jval where
  "ex_request = JObj ex_fields"

definition ex_partial :: "(string \<times> jval) list" where
  "ex_partial = [(''name'', JStr ''Ann''), (''injury'', JStr ''knee''), (''pain_level'', JInt 6),
     (''frequency'', JStr ''Daily''), (''time_of_day'', JStr ''morning''),
     (''notification_time'', JStr ''09:30'')]"

section \<open>What a stored document promises\<close>

text \<open>The spec's notification-time format (section 4.1, step 5): two digits of an
  hour 00--23, a colon, two digits of a minute 00--59.\<close>

definition is_hhmm :: "string \<Rightarrow> bool" where
  "is_hhmm t \<longleftrightarrow> length t = 5 \<and> t ! 2 = CHR '':'' \<and> is_digit (t ! 0) \<and> is_digit (t ! 1)
     \<and> is_digit (t ! 3) \<and> is_digit (t ! 4)
     \<and> 10 * digit_val (t ! 0) + digit_val (t ! 1) < 24 \<and> 10 * digit_val (t ! 3) + digit_val (t ! 4) < 60"

text \<open>What the code's pattern admits: such a time, alone or followed by one newline.\<close>

definition hhmm_or_nl :: "string \<Rightarrow> bool" where
  "hhmm_or_nl t \<longleftrightarrow> is_hhmm (take 5 t) \<and> (drop 5 t = [] \<or> drop 5 t = [CHR 0x0A])"

text \<open>The spec's accepted frequency phrasings (Glossary), in lower case.\<close>

definition ACCEPTED_FREQUENCIES :: "string list" where
  "ACCEPTED_FREQUENCIES = [''daily'', ''2 times a week'', ''3 times a week'', ''4 times a week'',
     ''5 times a week'', ''6 times a week'', ''everyday'', ''every other day'']"

definition doc_valid :: "string \<Rightarrow> patient_doc \<Rightarrow> bool" where
  "doc_valid k d \<longleftrightarrow> doc_id d = k \<and> 5 \<le> doc_age d \<and> doc_age d \<le> 100
     \<and> 1 \<le> doc_pain_severity d \<and> doc_pain_severity d \<le> 10
     \<and> doc_exercise_frequency d \<in> set ACCEPTED_FREQUENCIES
     \<and> hhmm_or_nl (doc_notification_time d) \<and> doc_created_at d = doc_updated_at d"

definition store_valid :: "patients \<Rightarrow> bool" where
  "store_valid db \<longleftrightarrow> list_all (\<lambda>(k, d). doc_valid k d) db"

section \<open>Lemmas: the steps\<close>

lemma check_bind_Pass_iff [simp]: "check_bind m f = Pass b \<longleftrightarrow> (\<exists>a. m = Pass a \<and> f a = Pass b)"
  by (cases m) auto

lemma check_bind_Reject_iff:
  "check_bind m f = Reject r \<longleftrightarrow> m = Reject r \<or> (\<exists>a. m = Pass a \<and> f a = Reject r)"
  by (cases m) auto

lemma check_bind_Raise_iff:
  "check_bind m f = Raise e \<longleftrightarrow> m = Raise e \<or> (\<exists>a. m = Pass a \<and> f a = Raise e)"
  by (cases m) auto

text \<open>The pattern of line 168 against the spec's format: it accepts exactly the
  spec's times, and the same times followed by one newline, because \<open>$\<close> also
  matches before a final newline.\<close>

lemma hh_alternatives:
  "((h1 \<in> set ''01'' \<and> is_digit h2) \<or> (h1 = CHR ''2'' \<and> cp CHR ''0'' \<le> cp h2 \<and> cp h2 \<le> cp CHR ''3''))
   = (is_digit h1 \<and> is_digit h2 \<and> 10 * digit_val h1 + digit_val h2 < 24)"
  by (auto simp: char_eq_cp [of h1] is_digit_def digit_val_def)

lemma mm_class:
  "(cp CHR ''0'' \<le> cp m1 \<and> cp m1 \<le> cp CHR ''5'' \<and> is_digit m2)
   = (is_digit m1 \<and> is_digit m2 \<and> 10 * digit_val m1 + digit_val m2 < 60)"
  by (auto simp: is_digit_def digit_val_def)

lemma notification_re_match:
  "(re_match notification_re s \<noteq> None) = hhmm_or_nl s"
proof -
  have "(re_match notification_re s \<noteq> None) =
     (\<exists>h1 h2 c m1 m2 r. s = h1 # h2 # c # m1 # m2 # r \<and>
        ((h1 \<in> set ''01'' \<and> is_digit h2) \<or> (h1 = CHR ''2'' \<and> cp CHR ''0'' \<le> cp h2 \<and> cp h2 \<le> cp CHR ''3''))
        \<and> c = CHR '':'' \<and> (cp CHR ''0'' \<le> cp m1 \<and> cp m1 \<le> cp CHR ''5'' \<and> is_digit m2)
        \<and> (r = [] \<or> r = [CHR 0x0A]))"
    by (auto simp: re_match_def notification_re_def accept_def split: list.splits option.splits if_splits)
  also have "\<dots> = hhmm_or_nl s"
    unfolding hh_alternatives mm_class ex_five_cons by (auto simp: hhmm_or_nl_def is_hhmm_def)
  finally show ?thesis .
qed

text \<open>Lower-casing makes the capitalised entries of \<open>VALID_FREQUENCIES\<close>
  unreachable: the list accepts exactly the spec's eight phrasings.\<close>

lemma lower_in_valid_frequencies:
  "(py_lower s \<in> set VALID_FREQUENCIES) = (py_lower s \<in> set ACCEPTED_FREQUENCIES)"
proof -
  have caps: "py_lower s \<notin> {''Daily'', ''Everyday'', ''Every other day''}"
  proof
    assume "py_lower s \<in> {''Daily'', ''Everyday'', ''Every other day''}"
    then have "CHR ''D'' \<in> set (py_lower s) \<or> CHR ''E'' \<in> set (py_lower s)" by auto
    then show False using py_lower_no_upper by (fastforce simp: is_upper_def)
  qed
  have "set VALID_FREQUENCIES = set ACCEPTED_FREQUENCIES \<union> {''Daily'', ''Everyday'', ''Every other day''}"
    by (auto simp: VALID_FREQUENCIES_def ACCEPTED_FREQUENCIES_def)
  with caps show ?thesis by auto
qed

lemma validate_int_field_Pass_iff:
  "validate_int_field l lo hi v = Pass n \<longleftrightarrow> py_int v = Inr n \<and> lo \<le> n \<and> n \<le> hi"
  by (auto simp: validate_int_field_def Let_def split: sum.splits py_exc.splits if_splits)

lemma validate_frequency_Pass_iff:
  "validate_frequency v = Pass fl \<longleftrightarrow> (\<exists>s. v = JStr s \<and> fl = py_lower s \<and> fl \<in> set ACCEPTED_FREQUENCIES)"
proof (cases v)
  case JNull
  then show ?thesis by (simp add: validate_frequency_def VALID_FREQUENCIES_def py_lower_def)
next
  case (JStr s)
  then show ?thesis by (auto simp: validate_frequency_def Let_def lower_in_valid_frequencies)
qed (simp_all add: validate_frequency_def)

lemma validate_notification_time_Pass_iff:
  "validate_notification_time v = Pass t \<longleftrightarrow> v = JStr t \<and> hhmm_or_nl t"
  using notification_re_match [of t] by (cases v) auto

lemma validate_int_field_in_range:
  "py_int v = Inr n \<Longrightarrow> lo \<le> n \<Longrightarrow> n \<le> hi \<Longrightarrow> validate_int_field l lo hi v = Pass n"
  by (simp add: validate_int_field_Pass_iff)

lemma validate_int_field_range_Reject:
  "py_int v = Inr n \<Longrightarrow> \<not> (lo \<le> n \<and> n \<le> hi) \<Longrightarrow> validate_int_field l lo hi v =
     Reject (l @ '' must be between '' @ string_of_int lo @ '' and '' @ string_of_int hi @ '', got ''
             @ string_of_int n)"
  by (simp add: validate_int_field_def Let_def)

lemma validate_int_field_type_Reject:
  "py_int v = Inl (ValueError m) \<or> py_int v = Inl (TypeError m) \<Longrightarrow> validate_int_field l lo hi v =
     Reject (l @ '' must be an integer between '' @ string_of_int lo @ '' and '' @ string_of_int hi
             @ '', got '' @ py_str v)"
  by (auto simp: validate_int_field_def Let_def)

lemma validate_int_field_Raise:
  "py_int v = Inl e \<Longrightarrow> (\<forall>m. e \<noteq> ValueError m \<and> e \<noteq> TypeError m) \<Longrightarrow>
     validate_int_field l lo hi v = Raise e"
  by (cases e) (auto simp: validate_int_field_def Let_def)

lemma read_intake_JObj:
  "read_intake (JObj ps) = Pass \<lparr>in_name = dict_get ps ''name'' JNull, in_age = dict_get ps ''age'' JNull,
     in_injury = dict_get ps ''injury'' JNull, in_pain_level = dict_get ps ''pain_level'' JNull,
     in_frequency = dict_get ps ''frequency'' JNull, in_time_of_day = dict_get ps ''time_of_day'' JNull,
     in_notification_time = dict_get ps ''notification_time'' JNull, in_goal = dict_get ps ''goal'' JNull,
     in_fcm_token = dict_get ps ''fcm_token'' (JStr [])\<rparr>"
  by (simp add: Let_def)

declare read_intake.simps(1) [simp del] read_intake_JObj [simp]

lemma int_literals:
  "string_of_int 1 = ''1''" "string_of_int 5 = ''5''" "string_of_int 10 = ''10''"
  "string_of_int 100 = ''100''"
  by (simp_all add: string_of_int_def dec_digits.simps digit_char_def)

lemma validate_request_Pass:
  assumes "validate_request rq = Pass v"
  shows "5 \<le> v_age v \<and> v_age v \<le> 100 \<and> 1 \<le> v_pain v \<and> v_pain v \<le> 10
    \<and> v_frequency v \<in> set ACCEPTED_FREQUENCIES \<and> hhmm_or_nl (v_notification_time v)"
  using assms
  by (auto simp: validate_request_def validate_int_field_Pass_iff validate_frequency_Pass_iff
      validate_notification_time_Pass_iff split: if_splits)

lemma doc_valid_make_patient_doc:
  "validate_request rq = Pass v \<Longrightarrow> doc_valid pid (make_patient_doc pid now v)"
  by (drule validate_request_Pass) (simp add: doc_valid_def make_patient_doc_def)

lemma store_valid_update:
  assumes "store_valid db" and "doc_valid k d"
  shows "store_valid (AList.update k d db)"
proof -
  have "set (AList.update k d db) \<subseteq> insert (k, d) (set db)"
    by (rule set_update_subset)
  with assms show ?thesis by (auto simp: store_valid_def list_all_iff)
qed

section \<open>Lemmas: the handler\<close>

lemma onboarding_cases:
  "process_structured_onboarding env rq h db =
     (case validate_request rq of
        Reject msg \<Rightarrow> (HttpResult (error_body msg) 400 h, db)
      | Raise e \<Rightarrow> (internal_error e h, db)
      | Pass v \<Rightarrow> (case env_put_error env of
           Some msg \<Rightarrow> (internal_error (StoreError msg) h, db)
         | None \<Rightarrow> (HttpResult (success_body (env_uuid env)) 200 h,
                    AList.update (env_uuid env) (make_patient_doc (env_uuid env) (env_now env) v) db)))"
  unfolding process_structured_onboarding_def Let_def by simp

text \<open>C1. Every document the handler writes satisfies the input constraints: the
  age lies in 5..100, the pain level in 1..10, the stored frequency is one of the
  spec's phrasings in lower case, the notification time has the pattern's format,
  and the two timestamps agree. A collection whose documents all satisfy this
  still does after any request.\<close>

theorem onboarding_store_invariant:
  "store_valid db \<Longrightarrow> store_valid (snd (process_structured_onboarding env rq h db))"
  by (auto simp: onboarding_cases doc_valid_make_patient_doc store_valid_update
      split: check.splits option.splits)

theorem onboarding_store_invariant_witness:
  "store_valid (snd (process_structured_onboarding ex_env ex_request () []))"
  by (rule onboarding_store_invariant) (simp add: store_valid_def)

lemma validate_request_Pass_ex:
  "(\<exists>v. validate_request rq = Pass v) \<longleftrightarrow>
    (\<exists>ps. rq = JObj ps \<and> missing_fields rq = [] \<and>
      (\<exists>a. py_int (dict_get ps ''age'' JNull) = Inr a \<and> 5 \<le> a \<and> a \<le> 100) \<and>
      (\<exists>p. py_int (dict_get ps ''pain_level'' JNull) = Inr p \<and> 1 \<le> p \<and> p \<le> 10) \<and>
      (\<exists>s. dict_get ps ''frequency'' JNull = JStr s \<and> py_lower s \<in> set ACCEPTED_FREQUENCIES) \<and>
      (\<exists>t. dict_get ps ''notification_time'' JNull = JStr t \<and> hhmm_or_nl t))"
  by (cases rq) (auto simp: validate_request_def validate_int_field_Pass_iff validate_frequency_Pass_iff
      validate_notification_time_Pass_iff Let_def)

text \<open>C2. A request succeeds (status 200) exactly when it is a JSON object with every
  required key, \<open>int(age)\<close> lies in 5..100, \<open>int(pain_level)\<close> in 1..10, the
  frequency is a string whose lower-case form is one of the spec's phrasings, the
  notification time is a string in the pattern's format, and the Firestore write
  does not raise.\<close>

theorem onboarding_success_iff:
  "status_of (fst (process_structured_onboarding env rq h db)) = 200 \<longleftrightarrow>
    (\<exists>ps. rq = JObj ps \<and> missing_fields rq = [] \<and>
      (\<exists>a. py_int (dict_get ps ''age'' JNull) = Inr a \<and> 5 \<le> a \<and> a \<le> 100) \<and>
      (\<exists>p. py_int (dict_get ps ''pain_level'' JNull) = Inr p \<and> 1 \<le> p \<and> p \<le> 10) \<and>
      (\<exists>s. dict_get ps ''frequency'' JNull = JStr s \<and> py_lower s \<in> set ACCEPTED_FREQUENCIES) \<and>
      (\<exists>t. dict_get ps ''notification_time'' JNull = JStr t \<and> hhmm_or_nl t)) \<and>
    env_put_error env = None"
proof -
  have "status_of (fst (process_structured_onboarding env rq h db)) = 200 \<longleftrightarrow>
      (\<exists>v. validate_request rq = Pass v) \<and> env_put_error env = None"
    by (auto simp: onboarding_cases internal_error_def split: check.splits option.splits)
  then show ?thesis by (simp only: validate_request_Pass_ex)
qed

text \<open>C3. A JSON object that lacks required keys gets a 400 whose message lists
  every missing key, comma-separated, in the order of \<open>required_fields\<close>; no
  other check runs and nothing is written.\<close>

theorem onboarding_missing_fields:
  "missing_fields (JObj ps) \<noteq> [] \<Longrightarrow>
   process_structured_onboarding env (JObj ps) h db =
     (HttpResult (error_body (''Missing required fields: ''
        @ py_join '', '' (filter (\<lambda>f. f \<notin> set (dict_keys ps)) REQUIRED_FIELDS))) 400 h, db)"
  by (simp add: onboarding_cases validate_request_def missing_message_def Let_def)

text \<open>C4. With every key present, an integer age outside 5..100 gets a 400 whose
  message states that value; nothing is written.\<close>

theorem onboarding_age_out_of_range:
  "missing_fields (JObj ps) = [] \<Longrightarrow> dict_get ps ''age'' JNull = JInt n \<Longrightarrow> n < 5 \<or> 100 < n \<Longrightarrow>
   process_structured_onboarding env (JObj ps) h db =
     (HttpResult (error_body (''Age must be between 5 and 100, got '' @ py_str (JInt n))) 400 h, db)"
proof -
  assume miss: "missing_fields (JObj ps) = []" and age: "dict_get ps ''age'' JNull = JInt n"
    and out: "n < 5 \<or> 100 < n"
  from out have "\<not> (5 \<le> n \<and> n \<le> 100)" by arith
  from validate_int_field_range_Reject [of "JInt n" n 5 100 "''Age''", OF _ this]
  have "validate_int_field ''Age'' 5 100 (JInt n) =
      Reject (''Age must be between 5 and 100, got '' @ string_of_int n)"
    by (simp add: int_literals)
  with miss age show ?thesis by (simp add: onboarding_cases validate_request_def)
qed

text \<open>C5. With every key present, an age string that \<open>int()\<close> rejects gets a 400
  whose message quotes the string as sent; nothing is written.\<close>

theorem onboarding_age_not_integer:
  "missing_fields (JObj ps) = [] \<Longrightarrow> dict_get ps ''age'' JNull = JStr s \<Longrightarrow> py_int_of_str s = Inl e \<Longrightarrow>
   process_structured_onboarding env (JObj ps) h db =
     (HttpResult (error_body (''Age must be an integer between 5 and 100, got '' @ s)) 400 h, db)"
proof -
  assume miss: "missing_fields (JObj ps) = []" and age: "dict_get ps ''age'' JNull = JStr s"
    and bad: "py_int_of_str s = Inl e"
  from py_int_of_str_Inl [OF bad] obtain m where "e = ValueError m" by blast
  with bad have "validate_int_field ''Age'' 5 100 (JStr s) =
      Reject (''Age must be an integer between 5 and 100, got '' @ s)"
    by (simp add: validate_int_field_type_Reject int_literals)
  with miss age show ?thesis by (simp add: onboarding_cases validate_request_def)
qed

text \<open>C6. The pain level is checked after the age: with every key present and a
  valid age, an integer pain level outside 1..10 gets a 400 stating that value.\<close>

theorem onboarding_pain_out_of_range:
  "missing_fields (JObj ps) = [] \<Longrightarrow> py_int (dict_get ps ''age'' JNull) = Inr a \<Longrightarrow> 5 \<le> a \<Longrightarrow> a \<le> 100 \<Longrightarrow>
   dict_get ps ''pain_level'' JNull = JInt n \<Longrightarrow> n < 1 \<or> 10 < n \<Longrightarrow>
   process_structured_onboarding env (JObj ps) h db =
     (HttpResult (error_body (''Pain level must be between 1 and 10, got '' @ py_str (JInt n))) 400 h, db)"
proof -
  assume miss: "missing_fields (JObj ps) = []" and age: "py_int (dict_get ps ''age'' JNull) = Inr a"
    and lo: "5 \<le> a" and hi: "a \<le> 100" and pain: "dict_get ps ''pain_level'' JNull = JInt n"
    and out: "n < 1 \<or> 10 < n"
  from age lo hi have "validate_int_field ''Age'' 5 100 (dict_get ps ''age'' JNull) = Pass a"
    by (simp add: validate_int_field_Pass_iff)
  moreover from out have "\<not> (1 \<le> n \<and> n \<le> 10)" by arith
  from validate_int_field_range_Reject [of "JInt n" n 1 10 "''Pain level''", OF _ this]
  have "validate_int_field ''Pain level'' 1 10 (JInt n) =
      Reject (''Pain level must be between 1 and 10, got '' @ string_of_int n)"
    by (simp add: int_literals)
  ultimately show ?thesis using miss pain by (simp add: onboarding_cases validate_request_def)
qed

text \<open>C7. The frequency check is case-insensitive and accepts exactly the spec's
  eight phrasings: a string passes, as its lower-case form, when that form is an
  accepted phrasing; the capitalised entries of \<open>VALID_FREQUENCIES\<close> never
  match a lower-cased value.\<close>

theorem frequency_check_lowercase:
  "validate_frequency (JStr s) =
     (if py_lower s \<in> set ACCEPTED_FREQUENCIES then Pass (py_lower s) else Reject frequency_message)"
  by (simp add: validate_frequency_def Let_def lower_in_valid_frequencies)

text \<open>C8. The notification-time check accepts a string exactly when it is a valid
  \<open>HH:MM\<close> time (hour 00--23, minute 00--59), alone or followed by one newline,
  and otherwise rejects it with a message quoting it.\<close>

theorem notification_time_check:
  "validate_notification_time (JStr t) =
     (if hhmm_or_nl t then Pass t
      else Reject (''Invalid notification time format. Must be HH:MM in 24-hour format, got '' @ t))"
  using notification_re_match [of t] by auto

lemma validate_request_late_Raise:
  assumes "missing_fields (JObj ps) = []"
    and "py_int (dict_get ps ''age'' JNull) = Inr a" "5 \<le> a" "a \<le> 100"
    and "py_int (dict_get ps ''pain_level'' JNull) = Inr p" "1 \<le> p" "p \<le> 10"
  shows "validate_frequency (dict_get ps ''frequency'' JNull) = Raise e \<Longrightarrow>
           validate_request (JObj ps) = Raise e"
    and "validate_frequency (dict_get ps ''frequency'' JNull) = Pass fl \<Longrightarrow>
         validate_notification_time (dict_get ps ''notification_time'' JNull) = Raise e \<Longrightarrow>
           validate_request (JObj ps) = Raise e"
  using assms by (simp_all add: validate_request_def validate_int_field_in_range)

lemma onboarding_Raise:
  "validate_request rq = Raise e \<Longrightarrow> process_structured_onboarding env rq h db = (internal_error e h, db)"
  by (simp add: onboarding_cases)

text \<open>C9. A frequency that is neither \<open>null\<close> nor a string has no \<open>lower\<close>: the
  \<open>AttributeError\<close> is not a validation failure but reaches the outer handler,
  which answers 500; nothing is written.\<close>

theorem onboarding_nonstring_frequency:
  assumes "missing_fields (JObj ps) = []"
    and "py_int (dict_get ps ''age'' JNull) = Inr a" "5 \<le> a" "a \<le> 100"
    and "py_int (dict_get ps ''pain_level'' JNull) = Inr p" "1 \<le> p" "p \<le> 10"
    and "dict_get ps ''frequency'' JNull = v" "v \<noteq> JNull" "\<forall>s. v \<noteq> JStr s"
  shows "process_structured_onboarding env (JObj ps) h db =
    (HttpResult (error_body (''Failed to onboard patient: '' @ quoted (py_type_name v)
       @ '' object has no attribute '' @ quoted ''lower'')) 500 h, db)"
proof -
  from assms(9,10) have "validate_frequency v = Raise (no_attr v ''lower'')"
    by (cases v) (auto simp: validate_frequency_def)
  with validate_request_late_Raise(1) [OF assms(1-7)] assms(8)
  have "validate_request (JObj ps) = Raise (no_attr v ''lower'')" by simp
  then show ?thesis by (simp add: onboarding_Raise internal_error_def no_attr_def)
qed

text \<open>C10. A notification time that is not a string makes \<open>re.match\<close> raise a
  \<open>TypeError\<close>, which the outer handler answers with 500; nothing is written.\<close>

theorem onboarding_nonstring_notification_time:
  assumes "missing_fields (JObj ps) = []"
    and "py_int (dict_get ps ''age'' JNull) = Inr a" "5 \<le> a" "a \<le> 100"
    and "py_int (dict_get ps ''pain_level'' JNull) = Inr p" "1 \<le> p" "p \<le> 10"
    and "dict_get ps ''frequency'' JNull = JStr s" "py_lower s \<in> set ACCEPTED_FREQUENCIES"
    and "dict_get ps ''notification_time'' JNull = v" "\<forall>t. v \<noteq> JStr t"
  shows "process_structured_onboarding env (JObj ps) h db =
    (HttpResult (error_body (''Failed to onboard patient: expected string or bytes-like object, got ''
       @ quoted (py_type_name v))) 500 h, db)"
proof -
  from assms(9) have "validate_frequency (JStr s) = Pass (py_lower s)"
    by (simp add: validate_frequency_Pass_iff)
  moreover from assms(11) have "validate_notification_time v =
      Raise (TypeError (''expected string or bytes-like object, got '' @ quoted (py_type_name v)))"
    by (cases v) auto
  ultimately have "validate_request (JObj ps) =
      Raise (TypeError (''expected string or bytes-like object, got '' @ quoted (py_type_name v)))"
    using validate_request_late_Raise(2) [OF assms(1-7)] assms(8,10) by simp
  then show ?thesis by (simp add: onboarding_Raise internal_error_def)
qed

text \<open>C11. An age that is an infinite float (\<open>1e400\<close> in the JSON body) makes
  \<open>int()\<close> raise \<open>OverflowError\<close>, which the \<open>except (ValueError, TypeError)\<close>
  does not catch: the answer is a 500, not a validation message.\<close>

theorem onboarding_infinite_age:
  "missing_fields (JObj ps) = [] \<Longrightarrow> dict_get ps ''age'' JNull = JFloat (PInf neg) \<Longrightarrow>
   process_structured_onboarding env (JObj ps) h db =
     (HttpResult (error_body ''Failed to onboard patient: cannot convert float infinity to integer'') 500 h, db)"
  by (simp add: onboarding_cases validate_request_def validate_int_field_Raise internal_error_def)

text \<open>C12. A body that is not a JSON object has no \<open>get\<close>: the first line of the
  handler raises and the answer is a 500.\<close>

theorem onboarding_non_object_body:
  "(\<forall>ps. rq \<noteq> JObj ps) \<Longrightarrow>
   process_structured_onboarding env rq h db =
     (HttpResult (error_body (''Failed to onboard patient: '' @ quoted (py_type_name rq)
        @ '' object has no attribute '' @ quoted ''get'')) 500 h, db)"
  by (cases rq) (simp_all add: onboarding_cases validate_request_def internal_error_def no_attr_def)

text \<open>C13. On success the handler answers 200 with the new id and writes, under
  that id, the document of lines 178--191: the validated age and pain level as
  integers, the frequency in lower case, the other fields as received,
  \<open>fcm_token\<close> defaulting to the empty string, and one timestamp for both
  \<open>created_at\<close> and \<open>updated_at\<close>.\<close>

theorem onboarding_written_document:
  assumes "missing_fields (JObj ps) = []"
    and "py_int (dict_get ps ''age'' JNull) = Inr a" "5 \<le> a" "a \<le> 100"
    and "py_int (dict_get ps ''pain_level'' JNull) = Inr p" "1 \<le> p" "p \<le> 10"
    and "dict_get ps ''frequency'' JNull = JStr s" "py_lower s \<in> set ACCEPTED_FREQUENCIES"
    and "dict_get ps ''notification_time'' JNull = JStr t" "hhmm_or_nl t"
    and "env_put_error env = None"
  shows "process_structured_onboarding env (JObj ps) h db =
    (HttpResult (success_body (env_uuid env)) 200 h,
     AList.update (env_uuid env)
       \<lparr>doc_id = env_uuid env, doc_name = dict_get ps ''name'' JNull, doc_age = a,
        doc_pain_description = dict_get ps ''injury'' JNull, doc_pain_severity = p,
        doc_exercise_frequency = py_lower s, doc_preferred_time = dict_get ps ''time_of_day'' JNull,
        doc_notification_time = t, doc_goal = dict_get ps ''goal'' JNull,
        doc_fcm_token = dict_get ps ''fcm_token'' (JStr []),
        doc_created_at = env_now env, doc_updated_at = env_now env\<rparr> db)"
proof -
  from assms(9) have "validate_frequency (JStr s) = Pass (py_lower s)"
    by (simp add: validate_frequency_Pass_iff)
  moreover from assms(11) have "validate_notification_time (JStr t) = Pass t"
    by (rule validate_notification_time_Pass_iff [THEN iffD2, OF conjI [OF refl]])
  ultimately show ?thesis using assms
    by (simp add: onboarding_cases validate_request_def validate_int_field_in_range make_patient_doc_def)
qed

text \<open>C14. When every check passes but the Firestore write raises, the answer is a
  500 carrying the store's message and the collection is unchanged.\<close>

theorem onboarding_store_write_error:
  "validate_request rq = Pass v \<Longrightarrow> env_put_error env = Some msg \<Longrightarrow>
   process_structured_onboarding env rq h db =
     (HttpResult (error_body (''Failed to onboard patient: '' @ msg)) 500 h, db)"
  by (simp add: onboarding_cases internal_error_def)

text \<open>C15. The handler never lets an exception escape: it always answers 200, 400
  or 500, and on every answer other than 200 the collection is unchanged.\<close>

theorem onboarding_response_status:
  "status_of (fst (process_structured_onboarding env rq h db)) \<in> {200, 400, 500} \<and>
   (status_of (fst (process_structured_onboarding env rq h db)) \<noteq> 200 \<longrightarrow>
      snd (process_structured_onboarding env rq h db) = db)"
  by (auto simp: onboarding_cases internal_error_def split: check.splits option.splits)

section \<open>Witnesses\<close>

lemmas ex_eval = ex_env_def ex_request_def ex_fields_def ex_partial_def dict_get_def dict_lookup_def
  dict_keys_def REQUIRED_FIELDS_def ACCEPTED_FREQUENCIES_def hhmm_or_nl_def is_hhmm_def

theorem onboarding_success_iff_witness:
  "status_of (fst (process_structured_onboarding ex_env ex_request () [])) = 200"
  using onboarding_success_iff [of ex_env ex_request "()" "[]"] by (simp add: ex_eval py_eval)

theorem onboarding_missing_fields_witness:
  "process_structured_onboarding ex_env (JObj ex_partial) () [] =
     (HttpResult (error_body ''Missing required fields: age, goal'') 400 (), [])"
  using onboarding_missing_fields [of ex_partial ex_env "()" "[]"] by (simp add: ex_eval)

theorem onboarding_age_out_of_range_witness:
  "process_structured_onboarding ex_env (JObj (ex_fields @ [(''age'', JInt 120)])) () [] =
     (HttpResult (error_body ''Age must be between 5 and 100, got 120'') 400 (), [])"
  using onboarding_age_out_of_range [of "ex_fields @ [(''age'', JInt 120)]" 120 ex_env "()" "[]"]
  by (simp add: ex_eval py_eval)

theorem onboarding_age_not_integer_witness:
  "process_structured_onboarding ex_env (JObj (ex_fields @ [(''age'', JStr ''thirty'')])) () [] =
     (HttpResult (error_body ''Age must be an integer between 5 and 100, got thirty'') 400 (), [])"
  using onboarding_age_not_integer [of "ex_fields @ [(''age'', JStr ''thirty'')]" "''thirty''"
      "int_literal_error ''thirty''" ex_env "()" "[]"]
  by (simp add: ex_eval py_eval)

theorem onboarding_pain_out_of_range_witness:
  "process_structured_onboarding ex_env (JObj (ex_fields @ [(''pain_level'', JInt 0)])) () [] =
     (HttpResult (error_body ''Pain level must be between 1 and 10, got 0'') 400 (), [])"
  using onboarding_pain_out_of_range [of "ex_fields @ [(''pain_level'', JInt 0)]" 34 0 ex_env "()" "[]"]
  by (simp add: ex_eval py_eval)

theorem frequency_check_lowercase_witness:
  "validate_frequency (JStr ''DAILY'') = Pass ''daily''
   \<and> validate_frequency (JStr ''weekly'') = Reject frequency_message"
  using frequency_check_lowercase [of "''DAILY''"] frequency_check_lowercase [of "''weekly''"]
  by (simp add: ex_eval py_eval)

theorem notification_time_check_witness:
  "validate_notification_time (JStr ''09:30'') = Pass ''09:30''
   \<and> validate_notification_time (JStr ''23:59'') = Pass ''23:59''
   \<and> validate_notification_time (JStr ''9:30'') \<noteq> Pass ''9:30''
   \<and> validate_notification_time (JStr ''24:00'') \<noteq> Pass ''24:00''
   \<and> validate_notification_time (JStr (''09:30'' @ [CHR 0x0A])) = Pass (''09:30'' @ [CHR 0x0A])"
  using notification_time_check [of "''09:30''"] notification_time_check [of "''23:59''"]
    notification_time_check [of "''9:30''"] notification_time_check [of "''24:00''"]
    notification_time_check [of "''09:30'' @ [CHR 0x0A]"]
  by (simp add: ex_eval py_eval)

theorem onboarding_nonstring_frequency_witness:
  "process_structured_onboarding ex_env (JObj (ex_fields @ [(''frequency'', JInt 3)])) () [] =
     (HttpResult (error_body (''Failed to onboard patient: '' @ quoted ''int''
        @ '' object has no attribute '' @ quoted ''lower'')) 500 (), [])"
  using onboarding_nonstring_frequency [of "ex_fields @ [(''frequency'', JInt 3)]" 34 6 "JInt 3" ex_env "()" "[]"]
  by (simp add: ex_eval py_eval del: quoted_def)

theorem onboarding_nonstring_notification_time_witness:
  "process_structured_onboarding ex_env (JObj (ex_fields @ [(''notification_time'', JInt 930)])) () [] =
     (HttpResult (error_body (''Failed to onboard patient: expected string or bytes-like object, got ''
        @ quoted ''int'')) 500 (), [])"
  using onboarding_nonstring_notification_time [of "ex_fields @ [(''notification_time'', JInt 930)]"
      34 6 "''Daily''" "JInt 930" ex_env "()" "[]"]
  by (simp add: ex_eval py_eval del: quoted_def)

theorem onboarding_infinite_age_witness:
  "process_structured_onboarding ex_env (JObj (ex_fields @ [(''age'', JFloat (PInf False))])) () [] =
     (HttpResult (error_body ''Failed to onboard patient: cannot convert float infinity to integer'') 500 (), [])"
  using onboarding_infinite_age [of "ex_fields @ [(''age'', JFloat (PInf False))]" False ex_env "()" "[]"]
  by (simp add: ex_eval)

theorem onboarding_non_object_body_witness:
  "process_structured_onboarding ex_env (JList []) () [] =
     (HttpResult (error_body (''Failed to onboard patient: '' @ quoted ''list''
        @ '' object has no attribute '' @ quoted ''get'')) 500 (), [])"
  using onboarding_non_object_body [of "JList []" ex_env "()" "[]"] by simp

theorem onboarding_written_document_witness:
  "map_option doc_exercise_frequency (map_of (snd (process_structured_onboarding ex_env ex_request () [])) ''7f3e'')
     = Some ''daily''"
  using onboarding_written_document [of ex_fields 34 6 "''Daily''" "''09:30''" ex_env "()" "[]"]
  by (simp add: ex_eval py_eval)

theorem onboarding_store_write_error_witness:
  "process_structured_onboarding (ex_env\<lparr>env_put_error := Some ''deadline exceeded''\<rparr>) ex_request () [] =
     (HttpResult (error_body ''Failed to onboard patient: deadline exceeded'') 500 (), [])"
proof -
  have "\<exists>v. validate_request ex_request = Pass v"
    by (simp add: validate_request_Pass_ex ex_eval py_eval)
  then obtain v where "validate_request ex_request = Pass v" ..
  from onboarding_store_write_error [OF this, of "ex_env\<lparr>env_put_error := Some ''deadline exceeded''\<rparr>"
      "''deadline exceeded''" "()" "[]"]
  show ?thesis by simp
qed

theorem onboarding_response_status_witness:
  "status_of (fst (process_structured_onboarding ex_env (JObj ex_partial) () [])) = 400
   \<and> snd (process_structured_onboarding ex_env (JObj ex_partial) () []) = []"
  using onboarding_response_status [of ex_env "JObj ex_partial" "()" "[]"]
  by (simp add: ex_eval onboarding_cases validate_request_def missing_message_def)

end
