(* ===== verification/CountScan.thy ===== *)
theory CountScan
  imports PyRe
begin

text \<open>
  The three patterns of \<open>extract_exercise_metrics\<close>
  (\<open>src/backend/cloud_functions/generate_report/main.py\<close>, lines 88, 94, 100)
  and a one-pass scanner, \<open>scan_counts\<close>, proved to return exactly what
  \<open>re.findall\<close> returns with the backtracking engine of \<open>PyRe\<close>. The proof
  characterises one match attempt (\<open>rmatch_count_re\<close>: the digit run, the white
  space, the keyword, an optional \<open>s\<close>) and then follows \<open>findall_from\<close> by
  computation induction. The scanner's facts (its results are digit runs, and a
  result implies the keyword occurs) serve the extractor's proofs.
\<close>

section \<open>The patterns\<close>

text \<open>\<open>(\d+)\s*sets?\<close>, \<open>(\d+)\s*reps?\<close>, \<open>(\d+)\s*minutes?\<close> for the keywords
  \<open>set\<close>, \<open>rep\<close> and \<open>minute\<close>.\<close>

definition count_re :: "string \<Rightarrow> regex" where
  "count_re kw = RSeq (RGroup 1 (RRep CDigit 1 None))
     (RSeq (RRep CSpace 0 None) (RSeq (rlit kw) (RRep (CChar CHR ''s'') 0 (Some 1))))"

section \<open>A direct scanner for the count patterns\<close>

text \<open>What \<open>re.findall(r'(\\d+)\\s*<kw>s?', c)\<close> computes, written as one left-to-right
  pass: at a digit, take the whole digit run, skip white space, and if the keyword
  follows report the run and continue after the keyword and an optional \<open>s\<close>;
  otherwise continue after the digit run. The equivalence with the backtracking
  matcher is \<open>findall_count_re\<close> below.\<close>

definition drop_s :: "string \<Rightarrow> string" where
  "drop_s r = (case r of c # r' \<Rightarrow> if c = CHR ''s'' then r' else r | [] \<Rightarrow> [])"

function scan_counts :: "string \<Rightarrow> string \<Rightarrow> string list" where
  "scan_counts kw [] = []"
| "scan_counts kw (c # cs) =
     (if is_digit c then
        (let ds = takeWhile is_digit (c # cs); r1 = dropWhile is_digit (c # cs);
             r2 = dropWhile py_isspace r1
         in if prefix kw r2 then ds # scan_counts kw (drop_s (drop (length kw) r2))
            else scan_counts kw r1)
      else scan_counts kw cs)"
  by pat_completeness auto
termination
proof (relation "measure (\<lambda>(kw, s). length s)")
  fix kw c cs ds r1 r2
  assume "is_digit c" and "r1 = dropWhile is_digit (c # cs)" and "r2 = dropWhile py_isspace r1"
  then have r1: "length r1 < length (c # cs)" by (simp add: le_imp_less_Suc length_dropWhile_le)
  moreover have "length r2 \<le> length r1" using \<open>r2 = _\<close> by (simp add: length_dropWhile_le)
  moreover have "length (drop_s x) \<le> length x" for x by (cases x) (auto simp: drop_s_def)
  then have "length (drop_s (drop (length kw) r2)) \<le> length (drop (length kw) r2)" .
  then have "length (drop_s (drop (length kw) r2)) \<le> length r2" by simp
  ultimately show "((kw, drop_s (drop (length kw) r2)), kw, c # cs) \<in> measure (\<lambda>(kw, s). length s)"
    by simp
  from r1 show "((kw, r1), kw, c # cs) \<in> measure (\<lambda>(kw, s). length s)" by simp
qed auto

text \<open>The keywords the scanner is proved for: non-empty, starting with neither a digit
  nor white space (the extractor's keywords start with a letter).\<close>

definition kw_ok :: "string \<Rightarrow> bool" where
  "kw_ok kw \<longleftrightarrow> kw \<noteq> [] \<and> \<not> is_digit (hd kw) \<and> \<not> py_isspace (hd kw)"

abbreviation count_rest :: "string \<Rightarrow> string \<Rightarrow> string" where
  "count_rest kw r \<equiv> drop_s (drop (length kw) (dropWhile py_isspace r))"

section \<open>The scanner implements findall\<close>

lemma suffix_drop_s: "suffix (drop_s r) r"
  by (cases r) (auto simp: drop_s_def suffix_ConsI)

lemma suffix_dropWhile: "suffix (dropWhile P xs) xs"
  by (induction xs) (auto simp: suffix_ConsI)

lemma drop_suffix_length: "suffix xs ys \<Longrightarrow> drop (length ys - length xs) ys = xs"
  by (auto simp: suffix_def)

lemma rmatch_opt_s:
  "rmatch (RRep (CChar CHR ''s'') 0 (Some 1)) p t m accept = Some (p + (length t - length (drop_s t)), m)"
proof (cases t)
  case (Cons a t')
  then show ?thesis
    by (cases "a = CHR ''s''") (simp_all add: rep_count_def drop_s_def accept_def)
qed (simp add: rep_count_def drop_s_def accept_def)

lemma prefix_hd_nomatch: "kw \<noteq> [] \<Longrightarrow> t \<noteq> [] \<Longrightarrow> hd t \<noteq> hd kw \<Longrightarrow> \<not> prefix kw t"
  by (cases kw; cases t) auto

lemma rmatch_count_tail:
  assumes "kw_ok kw"
  shows "rmatch (RSeq (RRep CSpace 0 None) (RSeq (rlit kw) (RRep (CChar CHR ''s'') 0 (Some 1)))) q t m accept =
    (if prefix kw (dropWhile py_isspace t) then Some (q + (length t - length (count_rest kw t)), m) else None)"
proof -
  from assms have kw: "kw \<noteq> []" and sp: "\<not> py_isspace (hd kw)" by (simp_all add: kw_ok_def)
  let ?k = "\<lambda>p s m. rmatch (RSeq (rlit kw) (RRep (CChar CHR ''s'') 0 (Some 1))) p s m accept"
  have fails: "?k q' t' m' = None" if "t' \<noteq> []" "cls_match CSpace (hd t')" for q' t' m'
  proof -
    from that sp have "hd t' \<noteq> hd kw" by auto
    with that(1) have "\<not> prefix kw t'" by (rule prefix_hd_nomatch [OF kw])
    then show ?thesis by (simp add: rmatch_rlit [OF kw])
  qed
  have cs: "cls_match CSpace = py_isspace" by (rule ext) simp
  let ?n = "length (takeWhile py_isspace t)"
  let ?r2 = "dropWhile py_isspace t"
  let ?d = "drop (length kw) ?r2"
  have n: "?n + length ?r2 = length t"
    by (metis length_append takeWhile_dropWhile_id)
  have ds: "length (drop_s ?d) \<le> length ?d" by (cases ?d) (auto simp: drop_s_def)
  have "rmatch (RSeq (RRep CSpace 0 None) (RSeq (rlit kw) (RRep (CChar CHR ''s'') 0 (Some 1)))) q t m accept
      = rmatch (RRep CSpace 0 None) q t m ?k"
    by (simp only: rmatch.simps(5))
  also have "\<dots> = ?k (q + ?n) ?r2 m"
    using rmatch_rep_greedy [of CSpace ?k 0 q t m, OF fails] by (simp add: cs del: rmatch.simps)
  also have "\<dots> = (if prefix kw ?r2 then Some (q + ?n + length kw + (length ?d - length (drop_s ?d)), m) else None)"
    by (simp add: rmatch_rlit [OF kw] rmatch_opt_s rmatch_opt_s [unfolded One_nat_def] del: rmatch.simps(8))
  also have "\<dots> = (if prefix kw ?r2 then Some (q + (length t - length (count_rest kw t)), m) else None)"
  proof (cases "prefix kw ?r2")
    case True
    then have "length kw \<le> length ?r2" by (rule prefix_length_le)
    with n ds show ?thesis by simp
  qed simp
  finally show ?thesis .
qed

lemma digit_not_space: "is_digit c \<Longrightarrow> \<not> py_isspace c"
  by (auto simp: is_digit_def py_isspace_def)

lemma dropWhile_space_digit: "t \<noteq> [] \<Longrightarrow> is_digit (hd t) \<Longrightarrow> dropWhile py_isspace t = t"
  by (cases t) (auto dest: digit_not_space)

lemma suffix_count_rest: "suffix (count_rest kw r) r"
  by (meson suffix_drop_s suffix_dropWhile suffix_drop suffix_order.order_trans)

lemma rmatch_count_re:
  assumes "kw_ok kw"
  shows "rmatch (count_re kw) i t Map.empty accept =
    (if takeWhile is_digit t \<noteq> [] \<and> prefix kw (dropWhile py_isspace (dropWhile is_digit t))
     then Some (i + (length t - length (count_rest kw (dropWhile is_digit t))),
                [1 \<mapsto> (i, i + length (takeWhile is_digit t))])
     else None)"
proof -
  from assms have kw: "kw \<noteq> []" and dg: "\<not> is_digit (hd kw)" by (simp_all add: kw_ok_def)
  let ?tail = "RSeq (RRep CSpace 0 None) (RSeq (rlit kw) (RRep (CChar CHR ''s'') 0 (Some 1)))"
  let ?k = "\<lambda>p' s' m'. rmatch ?tail p' s' (m'(1 \<mapsto> (i, p'))) accept"
  have fails: "?k q t' m' = None" if "t' \<noteq> []" "cls_match CDigit (hd t')" for q t' m'
  proof -
    from that dg have "hd t' \<noteq> hd kw" by auto
    with that(1) have "\<not> prefix kw t'" by (rule prefix_hd_nomatch [OF kw])
    with that show ?thesis
      by (simp add: rmatch_count_tail [OF assms, unfolded One_nat_def] dropWhile_space_digit del: rmatch.simps)
  qed
  have cd: "cls_match CDigit = is_digit" by (rule ext) simp
  let ?n = "length (takeWhile is_digit t)"
  let ?r1 = "dropWhile is_digit t"
  have n: "?n + length ?r1 = length t"
    by (metis length_append takeWhile_dropWhile_id)
  have cr: "length (count_rest kw ?r1) \<le> length ?r1"
    using suffix_count_rest [of kw ?r1] by (simp add: suffix_length_le)
  have "rmatch (count_re kw) i t Map.empty accept = rmatch (RRep CDigit 1 None) i t Map.empty ?k"
    by (simp only: count_re_def rmatch.simps(5) rmatch.simps(7))
  also have "\<dots> = (if ?n < 1 then None else ?k (i + ?n) ?r1 Map.empty)"
    using rmatch_rep_greedy [of CDigit ?k 1 i t Map.empty, OF fails] by (simp add: cd del: rmatch.simps)
  also have "\<dots> = (if takeWhile is_digit t \<noteq> [] \<and> prefix kw (dropWhile py_isspace ?r1)
     then Some (i + (length t - length (count_rest kw ?r1)), [1 \<mapsto> (i, i + ?n)]) else None)"
    using n cr by (simp add: rmatch_count_tail [OF assms, unfolded One_nat_def] add.assoc del: rmatch.simps)
  finally show ?thesis .
qed

lemma scan_counts_step:
  "scan_counts kw (c # cs) =
     (if is_digit c \<and> prefix kw (dropWhile py_isspace (dropWhile is_digit (c # cs)))
      then takeWhile is_digit (c # cs) # scan_counts kw (count_rest kw (dropWhile is_digit (c # cs)))
      else scan_counts kw cs)"
proof (cases "is_digit c \<and> \<not> prefix kw (dropWhile py_isspace (dropWhile is_digit (c # cs)))")
  case True
  then have c: "is_digit c" and np: "\<not> prefix kw (dropWhile py_isspace (dropWhile is_digit cs))"
    by auto
  then have "scan_counts kw (c # cs) = scan_counts kw (dropWhile is_digit cs)" by (simp add: Let_def)
  also have "\<dots> = scan_counts kw cs"
  proof (cases cs)
    case (Cons c' cs')
    with np show ?thesis by (cases "is_digit c'") (simp_all add: Let_def)
  qed simp
  finally show ?thesis using c np by simp
qed (auto simp: Let_def)

lemma drop_Suc_Cons: "drop i s = c # cs \<Longrightarrow> drop (Suc i) s = cs"
  by (metis drop_Suc drop_tl list.sel(3))

lemma findall_from_count_re_gen:
  assumes kw: "kw_ok kw"
  shows "r = count_re kw \<Longrightarrow> findall_from r s i = scan_counts kw (drop i s)"
proof (induction r s i rule: findall_from.induct)
  case (1 r s i)
  then have r: "r = count_re kw" by simp
  have "findall_from (count_re kw) s i = scan_counts kw (drop i s)"
  proof (cases "length s < i")
    case True
    then show ?thesis by (simp add: findall_from.simps)
  next
    case False
    note nle = False
    note IH1 = "1.IH"(1) [OF False _ r, unfolded r] and IH2 = "1.IH"(2) [OF False _ _ r, unfolded r]
    show ?thesis
    proof (cases "drop i s")
      case Nil
      then have "rmatch (count_re kw) i (drop i s) Map.empty accept = None"
        by (simp add: rmatch_count_re [OF kw])
      with IH1 False Nil show ?thesis by (subst findall_from.simps) simp
    next
      case (Cons c cs)
      let ?u = "c # cs"
      let ?ds = "takeWhile is_digit ?u"
      let ?x = "count_rest kw (dropWhile is_digit ?u)"
      show ?thesis
      proof (cases "?ds \<noteq> [] \<and> prefix kw (dropWhile py_isspace (dropWhile is_digit ?u))")
        case True
        let ?j = "i + (length ?u - length ?x)"
        have m: "rmatch (count_re kw) i (drop i s) Map.empty accept = Some (?j, [1 \<mapsto> (i, i + length ?ds)])"
          using True Cons by (simp only: rmatch_count_re [OF kw] simp_thms if_True)
        have sx: "suffix ?x (dropWhile is_digit ?u)" by (rule suffix_count_rest)
        then have "length ?x < length ?u"
          using True suffix_length_le [OF sx] length_dropWhile_le [of is_digit cs]
          by (cases "is_digit c") auto
        then have ji: "\<not> ?j \<le> i" by simp
        have "suffix ?x ?u" using sx suffix_dropWhile suffix_order.order_trans by blast
        then have dj: "drop ?j s = ?x"
        proof -
          assume sfx: "suffix ?x ?u"
          have "drop ?j s = drop (length ?u - length ?x) (drop i s)"
            by (simp only: drop_drop add.commute)
          also have "\<dots> = ?x" unfolding Cons using sfx by (rule drop_suffix_length)
          finally show ?thesis .
        qed
        have g: "group_text s [1 \<mapsto> (i, i + length ?ds)] 1 = ?ds"
          using Cons by (simp add: group_text_def takeWhile_eq_take [symmetric])
        from True have sc: "scan_counts kw ?u = ?ds # scan_counts kw ?x"
          by (cases "is_digit c") (simp_all only: scan_counts_step, auto)
        from IH2 [OF m refl] have ih: "findall_from (count_re kw) s ?j = scan_counts kw ?x"
          unfolding if_not_P [OF ji] dj .
        have "findall_from (count_re kw) s i
            = group_text s [1 \<mapsto> (i, i + length ?ds)] 1 # findall_from (count_re kw) s ?j"
          by (subst findall_from.simps) (simp only: m nle ji if_False option.case prod.case)
        also have "\<dots> = ?ds # scan_counts kw ?x" by (simp only: g ih)
        also have "\<dots> = scan_counts kw (drop i s)" by (simp only: sc Cons)
        finally show ?thesis .
      next
        case False
        then have m: "rmatch (count_re kw) i (drop i s) Map.empty accept = None"
          using Cons by (simp only: rmatch_count_re [OF kw] simp_thms if_False)
        from False have sc: "scan_counts kw ?u = scan_counts kw cs"
          by (subst scan_counts_step) (auto simp del: scan_counts.simps)
        have "findall_from (count_re kw) s i = findall_from (count_re kw) s (Suc i)"
          by (subst findall_from.simps) (simp only: m nle if_False option.case)
        also have "\<dots> = scan_counts kw cs" by (simp only: IH1 [OF m] drop_Suc_Cons [OF Cons])
        also have "\<dots> = scan_counts kw (drop i s)" by (simp only: sc Cons)
        finally show ?thesis .
      qed
    qed
  qed
  with r show ?case by simp
qed

lemma findall_count_re: "kw_ok kw \<Longrightarrow> findall (count_re kw) s = scan_counts kw s"
  by (simp add: findall_def findall_from_count_re_gen)

lemma scan_counts_digits:
  "d \<in> set (scan_counts kw s) \<Longrightarrow> d \<noteq> [] \<and> (\<forall>c \<in> set d. is_digit c)"
proof (induction kw s rule: scan_counts.induct)
  case (2 kw c cs)
  let ?r1 = "dropWhile is_digit (c # cs)"
  let ?r2 = "dropWhile py_isspace ?r1"
  show ?case
  proof (cases "is_digit c")
    case False
    with "2.prems" have "d \<in> set (scan_counts kw cs)" by (simp only: scan_counts.simps(2) if_False)
    with "2.IH"(3) False show ?thesis by blast
  next
    case True
    show ?thesis
    proof (cases "prefix kw ?r2")
      case pf: True
      with True "2.prems" have "d = takeWhile is_digit (c # cs) \<or> d \<in> set (scan_counts kw (count_rest kw ?r1))"
        by (simp only: scan_counts.simps(2) if_True Let_def simp_thms list.set_intros set_ConsD)
      then show ?thesis
      proof
        assume "d = takeWhile is_digit (c # cs)"
        with True show ?thesis by (auto dest: set_takeWhileD)
      qed (use "2.IH"(1) [OF True refl refl refl pf] in blast)
    next
      case npf: False
      with True "2.prems" have "d \<in> set (scan_counts kw ?r1)"
        by (simp only: scan_counts.simps(2) if_True if_False Let_def simp_thms)
      with "2.IH"(2) [OF True refl refl refl npf] show ?thesis by blast
    qed
  qed
qed simp

lemma sublist_prefix_suffix: "prefix xs ys \<Longrightarrow> suffix ys zs \<Longrightarrow> sublist xs zs"
  by (meson prefix_imp_sublist suffix_imp_sublist sublist_order.order_trans)

text \<open>A number is only found next to the keyword: the \<open>in\<close> guard of each branch
  never hides a match.\<close>

lemma scan_counts_contains: "scan_counts kw s \<noteq> [] \<Longrightarrow> py_contains kw s"
proof (induction kw s rule: scan_counts.induct)
  case (2 kw c cs)
  let ?r1 = "dropWhile is_digit (c # cs)"
  let ?r2 = "dropWhile py_isspace ?r1"
  have s1: "suffix ?r2 (c # cs)" by (meson suffix_dropWhile suffix_order.order_trans)
  have s2: "suffix ?r1 (c # cs)" by (rule suffix_dropWhile)
  have s3: "suffix cs (c # cs)" by (simp add: suffix_ConsI)
  show ?case
  proof (cases "is_digit c")
    case False
    with "2.prems" have "scan_counts kw cs \<noteq> []" by (simp only: scan_counts.simps(2) if_False simp_thms)
    with "2.IH"(3) False have "py_contains kw cs" by blast
    then show ?thesis using py_contains_mono suffix_imp_sublist s3 by blast
  next
    case True
    show ?thesis
    proof (cases "prefix kw ?r2")
      case pf: True
      then show ?thesis using sublist_prefix_suffix [OF pf s1] by (simp add: py_contains_sublist)
    next
      case npf: False
      with True "2.prems" have "scan_counts kw ?r1 \<noteq> []"
        by (simp only: scan_counts.simps(2) if_True if_False Let_def simp_thms)
      with "2.IH"(2) [OF True refl refl refl npf] have "py_contains kw ?r1" by blast
      then show ?thesis using py_contains_mono suffix_imp_sublist s2 by blast
    qed
  qed
qed simp

lemma kw_ok_keywords: "kw_ok ''set''" "kw_ok ''rep''" "kw_ok ''minute''"
  by (simp_all add: kw_ok_def is_digit_def py_isspace_def)

text \<open>C18. Equivalence: for each of the three patterns, \<open>re.findall\<close> with the
  backtracking engine returns exactly the digit runs of the direct scanner.\<close>

theorem count_patterns_findall_scan:
  "findall (count_re ''set'') s = scan_counts ''set'' s \<and>
   findall (count_re ''rep'') s = scan_counts ''rep'' s \<and>
   findall (count_re ''minute'') s = scan_counts ''minute'' s"
  by (simp add: findall_count_re kw_ok_keywords)

lemma scan_counts_digit_run:
  assumes "kw_ok kw" and "ds \<noteq> []" and "\<forall>c \<in> set ds. is_digit c"
  shows "scan_counts kw (ds @ kw @ w) = ds # scan_counts kw (drop_s w)"
proof -
  from assms(1) have kw: "kw \<noteq> []" "\<not> is_digit (hd kw)" "\<not> py_isspace (hd kw)"
    by (simp_all add: kw_ok_def)
  then have tw: "takeWhile is_digit (kw @ w) = []" and dw: "dropWhile is_digit (kw @ w) = kw @ w"
    and sw: "dropWhile py_isspace (kw @ w) = kw @ w" by (cases kw; simp)+
  from assms(3) have t: "takeWhile is_digit (ds @ kw @ w) = ds"
    and d: "dropWhile is_digit (ds @ kw @ w) = kw @ w"
    by (simp_all add: takeWhile_append2 dropWhile_append2 tw dw)
  from assms(2,3) obtain c cs where ds: "ds = c # cs" and c: "is_digit c" by (cases ds) auto
  have "scan_counts kw (c # cs @ kw @ w) = ds # scan_counts kw (drop_s w)"
    using scan_counts_step [of kw c "cs @ kw @ w"] t d sw c ds by simp
  then show ?thesis by (simp add: ds)
qed

text \<open>C22. The patterns have no word boundary: a digit run followed by the
  keyword is counted whatever letters follow the keyword, so \<open>"3 settings"\<close>
  counts as three sets and \<open>"10 representatives"\<close> as ten reps; the search
  resumes after the keyword and an optional \<open>s\<close>.\<close>

theorem count_re_keyword_prefix:
  assumes "kw \<in> {''set'', ''rep'', ''minute''}" and "ds \<noteq> []" and "\<forall>c \<in> set ds. is_digit c"
  shows "findall (count_re kw) (ds @ kw @ w) = ds # findall (count_re kw) (drop_s w)"
proof -
  from assms(1) have "kw_ok kw" using kw_ok_keywords by auto
  then show ?thesis using scan_counts_digit_run [OF _ assms(2,3)] by (simp add: findall_count_re)
qed

theorem count_re_keyword_prefix_witness:
  "findall (count_re ''set'') (''3'' @ ''set'' @ ''tings'') = ''3'' # findall (count_re ''set'') (drop_s ''tings'')"
  using count_re_keyword_prefix [of "''set''" "''3''" "''tings''"] by (simp add: is_digit_def)

declare drop_s_def [re_eval]

end
