(* ===== verification/Metrics.thy ===== *)
theory Metrics
  imports CountScan
begin

text \<open>
  \<open>extract_exercise_metrics(conversation_history)\<close> of
  \<open>src/backend/cloud_functions/generate_report/main.py\<close> (lines 72--104).

  The extractor scans the messages in order, lower-cases each content, and for
  each of sets, reps and minutes takes the last number the pattern
  \<open>(\d+)\s*<keyword>s?\<close> finds in the message and raises the running
  count to it. The state of the loop is the \<open>metrics\<close> dict and one more
  piece of state the source hides: \<open>import re\<close> stands inside the sets branch
  and the module never imports \<open>re\<close>, so \<open>re\<close> is a local variable of the
  function that is bound only once a message has entered that branch; the reps
  and minutes branches read it and raise \<open>UnboundLocalError\<close> before that.

  Beside the code: the contract of the design, an extractor per message
  (\<open>last_count\<close>, over the scanner of \<open>CountScan\<close>) and the aggregation by
  maximum (\<open>aggregate\<close>, over any extractor); \<open>re_ok\<close>, the condition under
  which \<open>re\<close> is bound whenever it is read. The lemmas prove the loop refines
  the contract, the crash condition, and monotonicity and bounds of the counters.
\<close>

section \<open>State\<close>

record metrics =
  sets_completed :: int
  reps_completed :: int
  duration_minutes :: int

definition metrics_init :: metrics where
  "metrics_init = \<lparr>sets_completed = 0, reps_completed = 0, duration_minutes = 0\<rparr>"

record extract_state =
  st_metrics :: metrics
  re_bound :: bool

definition unbound_re :: py_exc where
  "unbound_re = UnboundLocalError (''cannot access local variable '' @ quoted ''re''
     @ '' where it is not associated with a value'')"

section \<open>One message\<close>

text \<open>\<open>if '<kw>' in content or '<kw>s' in content\<close>.\<close>

definition mentions :: "string \<Rightarrow> string \<Rightarrow> bool" where
  "mentions kw c \<longleftrightarrow> py_contains kw c \<or> py_contains (kw @ ''s'') c"

text \<open>The body of one branch after its guard: \<open>findall\<close>, and when it found
  something, \<open>max(current, int(matches[-1]))\<close>; \<open>int()\<close> of more than 4300
  digits raises.\<close>

definition update_count :: "string \<Rightarrow> string \<Rightarrow> int \<Rightarrow> py_exc + int" where
  "update_count kw c cur =
     (let ms = findall (count_re kw) c in
      if ms = [] then Inr cur else bind_sum (py_int_of_str (last ms)) (\<lambda>v. Inr (max cur v)))"

text \<open>Line 82: \<open>message.get('content', '').lower()\<close>.\<close>

definition message_content :: "jval \<Rightarrow> py_exc + string" where
  "message_content msg =
     bind_sum (py_get msg ''content'' (JStr [])) (\<lambda>v.
       case v of JStr s \<Rightarrow> Inr (py_lower s) | _ \<Rightarrow> Inl (no_attr v ''lower''))"

text \<open>Lines 84--91: the sets branch executes \<open>import re\<close>, binding the local name.\<close>

definition sets_branch :: "string \<Rightarrow> extract_state \<Rightarrow> py_exc + extract_state" where
  "sets_branch c st =
     (if mentions ''set'' c then
        bind_sum (update_count ''set'' c (sets_completed (st_metrics st))) (\<lambda>n.
          Inr \<lparr>st_metrics = (st_metrics st)\<lparr>sets_completed := n\<rparr>, re_bound = True\<rparr>)
      else Inr st)"

text \<open>Lines 93--102: these branches use \<open>re\<close> without importing it.\<close>

definition reps_branch :: "string \<Rightarrow> extract_state \<Rightarrow> py_exc + extract_state" where
  "reps_branch c st =
     (if mentions ''rep'' c then
        (if \<not> re_bound st then Inl unbound_re
         else bind_sum (update_count ''rep'' c (reps_completed (st_metrics st))) (\<lambda>n.
           Inr (st\<lparr>st_metrics := (st_metrics st)\<lparr>reps_completed := n\<rparr>\<rparr>)))
      else Inr st)"

definition minutes_branch :: "string \<Rightarrow> extract_state \<Rightarrow> py_exc + extract_state" where
  "minutes_branch c st =
     (if mentions ''minute'' c then
        (if \<not> re_bound st then Inl unbound_re
         else bind_sum (update_count ''minute'' c (duration_minutes (st_metrics st))) (\<lambda>n.
           Inr (st\<lparr>st_metrics := (st_metrics st)\<lparr>duration_minutes := n\<rparr>\<rparr>)))
      else Inr st)"

definition metrics_step :: "extract_state \<Rightarrow> jval \<Rightarrow> py_exc + extract_state" where
  "metrics_step st msg =
     bind_sum (message_content msg) (\<lambda>c.
     bind_sum (sets_branch c st) (\<lambda>st1.
     bind_sum (reps_branch c st1) (\<lambda>st2.
     minutes_branch c st2)))"

section \<open>The loop\<close>

fun extract_loop :: "extract_state \<Rightarrow> jval list \<Rightarrow> py_exc + extract_state" where
  "extract_loop st [] = Inr st"
| "extract_loop st (m # ms) = bind_sum (metrics_step st m) (\<lambda>st'. extract_loop st' ms)"

definition extract_exercise_metrics :: "jval list \<Rightarrow> py_exc + metrics" where
  "extract_exercise_metrics msgs =
     bind_sum (extract_loop \<lparr>st_metrics = metrics_init, re_bound = False\<rparr> msgs) (\<lambda>st.
       Inr (st_metrics st))"

section \<open>Specification: per-message extraction and aggregation\<close>

text \<open>The contract of the design: a per-message extractor yields at most one value
  per message and the aggregation keeps the maximum of the values seen, starting
  from 0. The aggregation is stated over any extractor \<open>ext\<close>, so that the
  regular-expression heuristic can be exchanged without touching it.\<close>

definition agg_step :: "(string \<Rightarrow> int option) \<Rightarrow> int \<Rightarrow> string \<Rightarrow> int" where
  "agg_step ext acc c = (case ext c of None \<Rightarrow> acc | Some v \<Rightarrow> max acc v)"

definition aggregate :: "(string \<Rightarrow> int option) \<Rightarrow> int \<Rightarrow> string list \<Rightarrow> int" where
  "aggregate ext cur cs = foldl (agg_step ext) cur cs"

text \<open>The extractor of the code: the last number the keyword's pattern finds.\<close>

definition last_count :: "string \<Rightarrow> string \<Rightarrow> int option" where
  "last_count kw c = (let ms = scan_counts kw c in
     if ms = [] then None else Some (int (digits_val (last ms))))"

text \<open>The three counters the aggregation yields from a start value, and the
  order of counters, component-wise.\<close>

definition metrics_spec :: "metrics \<Rightarrow> string list \<Rightarrow> metrics" where
  "metrics_spec M cs =
     \<lparr>sets_completed = aggregate (last_count ''set'') (sets_completed M) cs,
      reps_completed = aggregate (last_count ''rep'') (reps_completed M) cs,
      duration_minutes = aggregate (last_count ''minute'') (duration_minutes M) cs\<rparr>"

definition metrics_le :: "metrics \<Rightarrow> metrics \<Rightarrow> bool" where
  "metrics_le M M' \<longleftrightarrow> sets_completed M \<le> sets_completed M' \<and>
     reps_completed M \<le> reps_completed M' \<and> duration_minutes M \<le> duration_minutes M'"

text \<open>The range every counter stays in: from 0 up to the largest value \<open>int()\<close>
  accepts from at most 4300 digits.\<close>

definition metrics_bounded :: "metrics \<Rightarrow> bool" where
  "metrics_bounded M \<longleftrightarrow>
     0 \<le> sets_completed M \<and> sets_completed M < 10 ^ max_str_digits \<and>
     0 \<le> reps_completed M \<and> reps_completed M < 10 ^ max_str_digits \<and>
     0 \<le> duration_minutes M \<and> duration_minutes M < 10 ^ max_str_digits"

text \<open>Every number found is short enough for \<open>int()\<close> (at most 4300 digits).\<close>

definition counts_fit :: "string \<Rightarrow> string \<Rightarrow> bool" where
  "counts_fit kw c \<longleftrightarrow> (\<forall>d \<in> set (scan_counts kw c). length d \<le> max_str_digits)"

definition all_fit :: "string list \<Rightarrow> bool" where
  "all_fit cs \<longleftrightarrow> (\<forall>c \<in> set cs. counts_fit ''set'' c \<and> counts_fit ''rep'' c \<and> counts_fit ''minute'' c)"

text \<open>The condition under which the function-local \<open>re\<close> is bound whenever it is
  read: every message that mentions reps or minutes comes at or after the first
  message that mentions sets. \<open>b\<close> says whether \<open>re\<close> is bound already.\<close>

fun re_ok :: "bool \<Rightarrow> string list \<Rightarrow> bool" where
  "re_ok b [] = True"
| "re_ok b (c # cs) =
     (let b' = b \<or> mentions ''set'' c in
      ((mentions ''rep'' c \<or> mentions ''minute'' c) \<longrightarrow> b') \<and> re_ok b' cs)"

text \<open>A message of the transcript, and the same message with a role field set.\<close>

definition text_message :: "string \<Rightarrow> jval" where
  "text_message s = JObj [(''content'', JStr s)]"

definition with_role :: "jval \<Rightarrow> jval \<Rightarrow> jval" where
  "with_role r m = (case m of JObj ps \<Rightarrow> JObj (ps @ [(''role'', r)]) | _ \<Rightarrow> m)"

section \<open>Properties of the extractor\<close>

lemma update_count_spec:
  assumes "kw_ok kw" and "counts_fit kw c"
  shows "update_count kw c cur = Inr (agg_step (last_count kw) cur c)"
proof (cases "scan_counts kw c = []")
  case False
  then have "last (scan_counts kw c) \<in> set (scan_counts kw c)" by simp
  with assms(2) scan_counts_digits have "py_int_of_str (last (scan_counts kw c))
      = Inr (int (digits_val (last (scan_counts kw c))))"
    by (intro py_int_of_str_digits) (auto simp: counts_fit_def)
  with False show ?thesis
    by (simp add: update_count_def findall_count_re [OF assms(1)] agg_step_def last_count_def)
qed (simp add: update_count_def findall_count_re [OF assms(1)] agg_step_def last_count_def)

lemma agg_step_no_mention: "\<not> mentions kw c \<Longrightarrow> agg_step (last_count kw) cur c = cur"
proof -
  assume "\<not> mentions kw c"
  then have "scan_counts kw c = []" using scan_counts_contains by (auto simp: mentions_def)
  then show ?thesis by (simp add: agg_step_def last_count_def)
qed

lemma sets_branch_spec:
  "counts_fit ''set'' c \<Longrightarrow> sets_branch c st =
     Inr \<lparr>st_metrics = (st_metrics st)\<lparr>sets_completed :=
            agg_step (last_count ''set'') (sets_completed (st_metrics st)) c\<rparr>,
          re_bound = (re_bound st \<or> mentions ''set'' c)\<rparr>"
  by (cases st) (auto simp: sets_branch_def update_count_spec kw_ok_keywords agg_step_no_mention)

lemma reps_branch_spec:
  "re_bound st \<or> \<not> mentions ''rep'' c \<Longrightarrow> counts_fit ''rep'' c \<Longrightarrow> reps_branch c st =
     Inr (st\<lparr>st_metrics := (st_metrics st)\<lparr>reps_completed :=
            agg_step (last_count ''rep'') (reps_completed (st_metrics st)) c\<rparr>\<rparr>)"
  by (cases st) (auto simp: reps_branch_def update_count_spec kw_ok_keywords agg_step_no_mention)

lemma minutes_branch_spec:
  "re_bound st \<or> \<not> mentions ''minute'' c \<Longrightarrow> counts_fit ''minute'' c \<Longrightarrow> minutes_branch c st =
     Inr (st\<lparr>st_metrics := (st_metrics st)\<lparr>duration_minutes :=
            agg_step (last_count ''minute'') (duration_minutes (st_metrics st)) c\<rparr>\<rparr>)"
  by (cases st) (auto simp: minutes_branch_def update_count_spec kw_ok_keywords agg_step_no_mention)

lemma metrics_step_spec:
  assumes "message_content m = Inr c"
    and "mentions ''rep'' c \<or> mentions ''minute'' c \<longrightarrow> re_bound st \<or> mentions ''set'' c"
    and "counts_fit ''set'' c" "counts_fit ''rep'' c" "counts_fit ''minute'' c"
  shows "metrics_step st m = Inr \<lparr>st_metrics = metrics_spec (st_metrics st) [c],
           re_bound = (re_bound st \<or> mentions ''set'' c)\<rparr>"
  using assms by (auto simp: metrics_step_def sets_branch_spec reps_branch_spec minutes_branch_spec
    metrics_spec_def aggregate_def)

lemma re_ok_True: "re_ok True cs"
  by (induction cs) simp_all

lemma aggregate_Cons: "aggregate ext cur (c # cs) = aggregate ext (agg_step ext cur c) cs"
  by (simp add: aggregate_def)

lemma metrics_spec_Cons: "metrics_spec M (c # cs) = metrics_spec (metrics_spec M [c]) cs"
  by (simp add: metrics_spec_def aggregate_def)

lemma extract_loop_spec:
  "map message_content msgs = map Inr cs \<Longrightarrow> re_ok (re_bound st) cs \<Longrightarrow> all_fit cs \<Longrightarrow>
   extract_loop st msgs = Inr \<lparr>st_metrics = metrics_spec (st_metrics st) cs,
     re_bound = (re_bound st \<or> (\<exists>c \<in> set cs. mentions ''set'' c))\<rparr>"
proof (induction msgs arbitrary: cs st)
  case Nil
  then show ?case by (cases st) (simp add: metrics_spec_def aggregate_def)
next
  case (Cons m msgs)
  then obtain c cs' where cs: "cs = c # cs'" and mc: "message_content m = Inr c"
    and rest: "map message_content msgs = map Inr cs'" by (cases cs) auto
  from Cons.prems(2) cs have ok: "mentions ''rep'' c \<or> mentions ''minute'' c \<longrightarrow> re_bound st \<or> mentions ''set'' c"
    and ok': "re_ok (re_bound st \<or> mentions ''set'' c) cs'" by (simp_all add: Let_def)
  from Cons.prems(3) cs have fit: "counts_fit ''set'' c" "counts_fit ''rep'' c" "counts_fit ''minute'' c"
    and fit': "all_fit cs'" by (simp_all add: all_fit_def)
  let ?st1 = "\<lparr>st_metrics = metrics_spec (st_metrics st) [c], re_bound = (re_bound st \<or> mentions ''set'' c)\<rparr>"
  have "extract_loop st (m # msgs) = extract_loop ?st1 msgs"
    using metrics_step_spec [OF mc ok fit] by simp
  also have "\<dots> = Inr \<lparr>st_metrics = metrics_spec (metrics_spec (st_metrics st) [c]) cs',
     re_bound = ((re_bound st \<or> mentions ''set'' c) \<or> (\<exists>c \<in> set cs'. mentions ''set'' c))\<rparr>"
    using Cons.IH [OF rest _ fit', of ?st1] ok' by simp
  also have "\<dots> = Inr \<lparr>st_metrics = metrics_spec (st_metrics st) cs,
     re_bound = (re_bound st \<or> (\<exists>c \<in> set cs. mentions ''set'' c))\<rparr>"
    using metrics_spec_Cons [of "st_metrics st" c cs'] cs by auto
  finally show ?case .
qed

lemma Max_insert_max:
  "finite S \<Longrightarrow> Max (insert (max a b) S) = Max (insert a (insert b S))"
  by (cases "S = {}") (simp_all add: max.assoc)

lemma aggregate_Max:
  "aggregate ext cur cs = Max (insert cur (set (List.map_filter ext cs)))"
proof (induction cs arbitrary: cur)
  case Nil
  then show ?case by (simp add: aggregate_def List.map_filter_simps)
next
  case (Cons c cs)
  then show ?case
    by (cases "ext c") (simp_all add: aggregate_Cons agg_step_def List.map_filter_simps Max_insert_max)
qed

lemma sets_branch_skip: "\<not> mentions ''set'' c \<Longrightarrow> sets_branch c st = Inr st"
  by (simp add: sets_branch_def)

lemma reps_branch_skip: "\<not> mentions ''rep'' c \<Longrightarrow> reps_branch c st = Inr st"
  by (simp add: reps_branch_def)

lemma minutes_branch_skip: "\<not> mentions ''minute'' c \<Longrightarrow> minutes_branch c st = Inr st"
  by (simp add: minutes_branch_def)

lemma extract_loop_unbound:
  "map message_content msgs = map Inr cs \<Longrightarrow> \<not> re_ok False cs \<Longrightarrow> \<not> re_bound st \<Longrightarrow>
   extract_loop st msgs = Inl unbound_re"
proof (induction msgs arbitrary: cs st)
  case (Cons m msgs)
  then obtain c cs' where cs: "cs = c # cs'" and mc: "message_content m = Inr c"
    and rest: "map message_content msgs = map Inr cs'" by (cases cs) auto
  from Cons.prems(2) cs have ns: "\<not> mentions ''set'' c"
    and bad: "(mentions ''rep'' c \<or> mentions ''minute'' c) \<or> \<not> re_ok False cs'"
    by (cases "mentions ''set'' c"; auto simp: Let_def re_ok_True)+
  show ?case
  proof (cases "mentions ''rep'' c \<or> mentions ''minute'' c")
    case True
    with Cons.prems(3) mc ns show ?thesis
      by (auto simp: metrics_step_def sets_branch_skip reps_branch_skip reps_branch_def minutes_branch_def)
  next
    case False
    with mc ns have "metrics_step st m = Inr st"
      by (simp add: metrics_step_def sets_branch_skip reps_branch_skip minutes_branch_skip)
    with Cons.IH [OF rest _ Cons.prems(3)] bad False show ?thesis by simp
  qed
qed simp

lemma update_count_ge: "update_count kw c cur = Inr n \<Longrightarrow> cur \<le> n"
  by (auto simp: update_count_def Let_def bind_sum_Inr_iff split: if_splits)

lemma metrics_step_mono:
  "metrics_step st m = Inr st' \<Longrightarrow> metrics_le (st_metrics st) (st_metrics st')"
  by (auto simp: metrics_step_def bind_sum_Inr_iff sets_branch_def reps_branch_def minutes_branch_def
    metrics_le_def split: if_splits dest!: update_count_ge)

lemma metrics_le_trans: "metrics_le a b \<Longrightarrow> metrics_le b c \<Longrightarrow> metrics_le a c"
  by (auto simp: metrics_le_def)

lemma extract_loop_append:
  "extract_loop st (ms1 @ ms2) = bind_sum (extract_loop st ms1) (\<lambda>st'. extract_loop st' ms2)"
  by (induction ms1 arbitrary: st) (simp_all add: bind_sum_def split: sum.split)

lemma extract_loop_mono:
  "extract_loop st ms = Inr st' \<Longrightarrow> metrics_le (st_metrics st) (st_metrics st')"
proof (induction ms arbitrary: st)
  case Nil
  then show ?case by (simp add: metrics_le_def)
next
  case (Cons m ms)
  then obtain st1 where "metrics_step st m = Inr st1" and "extract_loop st1 ms = Inr st'"
    by (auto simp: bind_sum_Inr_iff)
  then show ?case using Cons.IH metrics_step_mono metrics_le_trans by blast
qed

lemma message_content_with_role: "message_content (with_role r m) = message_content m"
  by (cases m) (simp_all add: with_role_def message_content_def dict_get_snoc)

lemma extract_loop_with_role:
  "extract_loop st (map (with_role r) msgs) = extract_loop st msgs"
  by (induction msgs arbitrary: st) (simp_all add: metrics_step_def message_content_with_role)

text \<open>C16. Refinement: when every message has a string content, every mention of
  reps or minutes comes at or after the first mention of sets, and every number is
  at most 4300 digits long, the extractor returns for each counter the maximum of 0
  and of the last number each message states for that keyword.\<close>

theorem extract_metrics_refines:
  assumes "map message_content msgs = map Inr cs" and "re_ok False cs" and "all_fit cs"
  shows "extract_exercise_metrics msgs = Inr
    \<lparr>sets_completed = Max (insert 0 (set (List.map_filter (last_count ''set'') cs))),
     reps_completed = Max (insert 0 (set (List.map_filter (last_count ''rep'') cs))),
     duration_minutes = Max (insert 0 (set (List.map_filter (last_count ''minute'') cs)))\<rparr>"
  using extract_loop_spec [OF assms(1) _ assms(3), of "\<lparr>st_metrics = metrics_init, re_bound = False\<rparr>"] assms(2)
  by (simp add: extract_exercise_metrics_def metrics_spec_def metrics_init_def aggregate_Max)

lemmas metrics_eval = drop_s_def extract_exercise_metrics_def text_message_def metrics_step_def message_content_def
  sets_branch_def reps_branch_def minutes_branch_def mentions_def update_count_def count_re_def
  metrics_init_def last_count_def all_fit_def counts_fit_def

theorem extract_metrics_refines_witness:
  "map message_content [text_message ''I did 2 sets'', text_message ''then 10 reps'']
     = map Inr [''i did 2 sets'', ''then 10 reps''] \<and>
   re_ok False [''i did 2 sets'', ''then 10 reps''] \<and> all_fit [''i did 2 sets'', ''then 10 reps''] \<and>
   extract_exercise_metrics [text_message ''I did 2 sets'', text_message ''then 10 reps''] =
     Inr \<lparr>sets_completed = 2, reps_completed = 10, duration_minutes = 0\<rparr>"
  using extract_metrics_refines [of "[text_message ''I did 2 sets'', text_message ''then 10 reps'']"
      "[''i did 2 sets'', ''then 10 reps'']"]
  by (simp add: metrics_eval py_eval re_eval List.map_filter_simps)

text \<open>C17. Error path: when every message has a string content and some message
  mentions reps or minutes before any message has mentioned sets, the extractor
  raises \<open>UnboundLocalError\<close> for the function-local name \<open>re\<close>.\<close>

theorem extract_metrics_unbound_local:
  assumes "map message_content msgs = map Inr cs" and "\<not> re_ok False cs"
  shows "extract_exercise_metrics msgs = Inl unbound_re"
  using extract_loop_unbound [OF assms, of "\<lparr>st_metrics = metrics_init, re_bound = False\<rparr>"]
  by (simp add: extract_exercise_metrics_def)

theorem extract_metrics_unbound_local_witness:
  "map message_content [text_message ''I did 10 reps'', text_message ''and 2 sets'']
     = map Inr [''i did 10 reps'', ''and 2 sets''] \<and>
   \<not> re_ok False [''i did 10 reps'', ''and 2 sets''] \<and>
   extract_exercise_metrics [text_message ''I did 10 reps'', text_message ''and 2 sets''] = Inl unbound_re"
  using extract_metrics_unbound_local [of "[text_message ''I did 10 reps'', text_message ''and 2 sets'']"
      "[''i did 10 reps'', ''and 2 sets'']"]
  by (simp add: metrics_eval py_eval re_eval)

text \<open>C19. Invariant: the counters start at 0 and never decrease as the transcript is
  scanned: whenever a transcript is processed without error, so is each of its
  prefixes, with counters between 0 and the final ones.\<close>

theorem extract_metrics_monotone:
  assumes "extract_exercise_metrics (ms1 @ ms2) = Inr m2"
  shows "\<exists>m1. extract_exercise_metrics ms1 = Inr m1 \<and> metrics_le metrics_init m1 \<and> metrics_le m1 m2"
proof -
  from assms obtain st1 st2 where
    l1: "extract_loop \<lparr>st_metrics = metrics_init, re_bound = False\<rparr> ms1 = Inr st1"
    and l2: "extract_loop st1 ms2 = Inr st2" and m2: "m2 = st_metrics st2"
    by (auto simp: extract_exercise_metrics_def extract_loop_append bind_sum_Inr_iff)
  from l1 have "metrics_le metrics_init (st_metrics st1)" using extract_loop_mono by fastforce
  moreover from l2 have "metrics_le (st_metrics st1) m2" unfolding m2 by (rule extract_loop_mono)
  ultimately show ?thesis using l1 by (simp add: extract_exercise_metrics_def)
qed

theorem extract_metrics_monotone_witness:
  "extract_exercise_metrics ([text_message ''2 sets''] @ [text_message ''1 set'']) =
     Inr \<lparr>sets_completed = 2, reps_completed = 0, duration_minutes = 0\<rparr> \<and>
   (\<exists>m1. extract_exercise_metrics [text_message ''2 sets''] = Inr m1 \<and> metrics_le metrics_init m1 \<and>
      metrics_le m1 \<lparr>sets_completed = 2, reps_completed = 0, duration_minutes = 0\<rparr>)"
proof -
  have e: "extract_exercise_metrics ([text_message ''2 sets''] @ [text_message ''1 set'']) =
     Inr \<lparr>sets_completed = 2, reps_completed = 0, duration_minutes = 0\<rparr>"
    by (simp add: metrics_eval py_eval re_eval)
  from e extract_metrics_monotone [OF e] show ?thesis by blast
qed

lemma metrics_step_reps_keep:
  "metrics_step st m = Inr st' \<Longrightarrow> message_content m = Inr c \<Longrightarrow> \<not> mentions ''rep'' c \<Longrightarrow>
   reps_completed (st_metrics st') = reps_completed (st_metrics st)"
  by (auto simp: metrics_step_def bind_sum_Inr_iff sets_branch_def reps_branch_skip minutes_branch_def
    split: if_splits)

lemma extract_loop_reps_keep:
  "extract_loop st ms = Inr st' \<Longrightarrow> \<forall>m \<in> set ms. \<forall>c. message_content m = Inr c \<longrightarrow> \<not> mentions ''rep'' c \<Longrightarrow>
   reps_completed (st_metrics st') = reps_completed (st_metrics st)"
proof (induction ms arbitrary: st)
  case (Cons m ms)
  then obtain st1 c where s1: "metrics_step st m = Inr st1" and l: "extract_loop st1 ms = Inr st'"
    and mc: "message_content m = Inr c"
    by (auto simp: bind_sum_Inr_iff metrics_step_def)
  with Cons.prems(2) have "reps_completed (st_metrics st1) = reps_completed (st_metrics st)"
    by (intro metrics_step_reps_keep) auto
  with Cons.IH [OF l] Cons.prems(2) show ?case by simp
qed simp

text \<open>C20. A transcript none of whose messages mentions \<open>rep\<close> or \<open>reps\<close> yields
  \<open>reps_completed = 0\<close> whenever the extractor returns.\<close>

theorem extract_metrics_no_rep_mention:
  assumes "extract_exercise_metrics msgs = Inr M"
    and "\<forall>m \<in> set msgs. \<forall>c. message_content m = Inr c \<longrightarrow> \<not> mentions ''rep'' c"
  shows "reps_completed M = 0"
proof -
  from assms(1) obtain st' where l: "extract_loop \<lparr>st_metrics = metrics_init, re_bound = False\<rparr> msgs = Inr st'"
    and M: "M = st_metrics st'" by (auto simp: extract_exercise_metrics_def bind_sum_Inr_iff)
  from extract_loop_reps_keep [OF l assms(2)] M show ?thesis by (simp add: metrics_init_def)
qed

theorem extract_metrics_no_rep_mention_witness:
  "extract_exercise_metrics [text_message ''3 sets of 10 minutes''] =
     Inr \<lparr>sets_completed = 3, reps_completed = 0, duration_minutes = 10\<rparr> \<and>
   reps_completed \<lparr>sets_completed = 3, reps_completed = 0, duration_minutes = 10\<rparr> = 0"
proof -
  have e: "extract_exercise_metrics [text_message ''3 sets of 10 minutes''] =
     Inr \<lparr>sets_completed = 3, reps_completed = 0, duration_minutes = 10\<rparr>"
    by (simp add: metrics_eval py_eval re_eval)
  have n: "\<forall>m \<in> set [text_message ''3 sets of 10 minutes'']. \<forall>c. message_content m = Inr c \<longrightarrow> \<not> mentions ''rep'' c"
    by (simp add: metrics_eval py_eval)
  from e n extract_metrics_no_rep_mention [OF e n] show ?thesis by blast
qed

text \<open>C21. The role of a message does not affect extraction: setting the
  \<open>role\<close> field of every message leaves the result, error or counters, unchanged.\<close>

theorem extract_metrics_role_independent:
  "extract_exercise_metrics (map (with_role r) msgs) = extract_exercise_metrics msgs"
  by (simp add: extract_exercise_metrics_def extract_loop_with_role)

lemma update_count_bounded:
  "update_count kw c cur = Inr n \<Longrightarrow> 0 \<le> cur \<Longrightarrow> cur < 10 ^ max_str_digits \<Longrightarrow>
   0 \<le> n \<and> n < 10 ^ max_str_digits"
  by (auto simp: update_count_def Let_def bind_sum_Inr_iff split: if_splits dest!: py_int_of_str_bound)

lemma sets_branch_bounded:
  "sets_branch c st = Inr st' \<Longrightarrow> metrics_bounded (st_metrics st) \<Longrightarrow> metrics_bounded (st_metrics st')"
  unfolding sets_branch_def metrics_bounded_def
  by (cases "mentions ''set'' c") (auto simp: bind_sum_Inr_iff dest!: update_count_bounded)

lemma reps_branch_bounded:
  "reps_branch c st = Inr st' \<Longrightarrow> metrics_bounded (st_metrics st) \<Longrightarrow> metrics_bounded (st_metrics st')"
  unfolding reps_branch_def metrics_bounded_def
  by (auto simp: bind_sum_Inr_iff split: if_splits dest!: update_count_bounded)

lemma minutes_branch_bounded:
  "minutes_branch c st = Inr st' \<Longrightarrow> metrics_bounded (st_metrics st) \<Longrightarrow> metrics_bounded (st_metrics st')"
  unfolding minutes_branch_def metrics_bounded_def
  by (auto simp: bind_sum_Inr_iff split: if_splits dest!: update_count_bounded)

lemma metrics_step_bounded:
  "metrics_step st m = Inr st' \<Longrightarrow> metrics_bounded (st_metrics st) \<Longrightarrow> metrics_bounded (st_metrics st')"
  unfolding metrics_step_def
  by (auto simp: bind_sum_Inr_iff dest!: sets_branch_bounded reps_branch_bounded minutes_branch_bounded)

lemma extract_loop_bounded:
  "extract_loop st ms = Inr st' \<Longrightarrow> metrics_bounded (st_metrics st) \<Longrightarrow> metrics_bounded (st_metrics st')"
  by (induction ms arbitrary: st) (auto simp: bind_sum_Inr_iff dest: metrics_step_bounded)

text \<open>C23. Bounds: every counter the extractor returns lies in
  \<open>[0, 10 ^ 4300)\<close>, since \<open>int()\<close> refuses longer digit strings.\<close>

theorem extract_metrics_bounded:
  assumes "extract_exercise_metrics msgs = Inr M"
  shows "metrics_bounded M"
proof -
  from assms obtain st' where l: "extract_loop \<lparr>st_metrics = metrics_init, re_bound = False\<rparr> msgs = Inr st'"
    and M: "M = st_metrics st'" by (auto simp: extract_exercise_metrics_def bind_sum_Inr_iff)
  have "metrics_bounded metrics_init" by (simp add: metrics_bounded_def metrics_init_def)
  with extract_loop_bounded [OF l] M show ?thesis by simp
qed

theorem extract_metrics_bounded_witness:
  "extract_exercise_metrics [text_message ''12 sets''] =
     Inr \<lparr>sets_completed = 12, reps_completed = 0, duration_minutes = 0\<rparr> \<and>
   metrics_bounded \<lparr>sets_completed = 12, reps_completed = 0, duration_minutes = 0\<rparr>"
proof -
  have e: "extract_exercise_metrics [text_message ''12 sets''] =
     Inr \<lparr>sets_completed = 12, reps_completed = 0, duration_minutes = 0\<rparr>"
    by (simp add: metrics_eval py_eval re_eval)
  from e extract_metrics_bounded [OF e] show ?thesis by blast
qed

end
