(* ===== verification/Formatter.thy ===== *)
theory Formatter
  imports PyRuntime
begin

text \<open>
  \<open>format_conversation_history\<close> of
  \<open>src/backend/cloud_functions/generate_report/main.py\<close> (lines 106--115): one
  line per message, joined by newlines. The lemmas read the history back with
  \<open>str.split('\\n')\<close>: when no line contains a newline the lines come back
  one per message, in order; a content with a newline forges a coach turn.
\<close>

section \<open>format_conversation_history\<close>

text \<open>Lines 106--115: one line \<open>"<speaker>: <content>"\<close> per message, the speaker
  \<open>Patient\<close> when the role equals the string \<open>'user'\<close> and \<open>AI Coach\<close> otherwise,
  the content as \<open>str()\<close> formats it; lines joined by newlines.\<close>

definition format_line :: "jval \<Rightarrow> py_exc + string" where
  "format_line msg =
     bind_sum (py_get msg ''role'' (JStr [])) (\<lambda>role.
     bind_sum (py_get msg ''content'' (JStr [])) (\<lambda>content.
       Inr ((if role = JStr ''user'' then ''Patient'' else ''AI Coach'') @ '': '' @ py_str content)))"

fun format_lines :: "jval list \<Rightarrow> py_exc + string list" where
  "format_lines [] = Inr []"
| "format_lines (m # ms) = bind_sum (format_line m) (\<lambda>l. bind_sum (format_lines ms) (\<lambda>ls. Inr (l # ls)))"

definition format_conversation_history :: "jval list \<Rightarrow> py_exc + string" where
  "format_conversation_history msgs = bind_sum (format_lines msgs) (\<lambda>ls. Inr (py_join [CHR 0x0A] ls))"

text \<open>Python's \<open>str.split('\\n')\<close>, to read the formatted history back as lines.\<close>

fun py_split_nl :: "string \<Rightarrow> string list" where
  "py_split_nl [] = [[]]"
| "py_split_nl (c # cs) =
     (if c = CHR 0x0A then [] # py_split_nl cs
      else (case py_split_nl cs of l # ls \<Rightarrow> (c # l) # ls | [] \<Rightarrow> [[c]]))"

section \<open>Properties\<close>

lemma py_split_nl_nonempty: "py_split_nl s \<noteq> []"
  by (induction s) (auto split: list.split)

lemma py_split_nl_append:
  "CHR 0x0A \<notin> set l \<Longrightarrow> py_split_nl (l @ r) = (case py_split_nl r of x # xs \<Rightarrow> (l @ x) # xs)"
  by (induction l) (auto split: list.split simp: py_split_nl_nonempty)

lemma py_split_nl_join:
  "ls \<noteq> [] \<Longrightarrow> \<forall>l \<in> set ls. CHR 0x0A \<notin> set l \<Longrightarrow> py_split_nl (py_join [CHR 0x0A] ls) = ls"
proof (induction ls)
  case (Cons x xs)
  show ?case
  proof (cases xs)
    case Nil
    with Cons.prems show ?thesis using py_split_nl_append [of x "[]"] by simp
  next
    case (Cons y zs)
    with Cons.IH Cons.prems show ?thesis
      using py_split_nl_append [of x "CHR 0x0A # py_join [CHR 0x0A] (y # zs)"] by simp
  qed
qed simp

lemma format_lines_JObj:
  "format_lines (map JObj pss) = Inr (map (\<lambda>ps.
     (if dict_get ps ''role'' (JStr []) = JStr ''user'' then ''Patient'' else ''AI Coach'') @ '': ''
       @ py_str (dict_get ps ''content'' (JStr []))) pss)"
  by (induction pss) (simp_all add: format_line_def)

lemma format_lines_append:
  "format_lines (xs @ ys) = bind_sum (format_lines xs) (\<lambda>l1. bind_sum (format_lines ys) (\<lambda>l2. Inr (l1 @ l2)))"
  by (induction xs) (simp_all add: bind_sum_def split: sum.split)

text \<open>Joining lines one of which holds the separator gives the text of the list in
  which that line is split in two.\<close>

lemma py_join_split_line:
  "py_join sep (xs @ (x @ sep @ y) # ys) = py_join sep (xs @ x # y # ys)"
proof (induction xs)
  case Nil
  then show ?case by (simp add: py_join_Cons)
next
  case (Cons z zs)
  then show ?case by (simp add: py_join_Cons)
qed

text \<open>C24. Round trip: for a transcript of JSON objects none of whose contents
  contains a newline, the history is defined and splitting it at newlines gives
  one line per message, in order, each \<open>"Patient: <content>"\<close> when the role is
  the string \<open>'user'\<close> and \<open>"AI Coach: <content>"\<close> otherwise, with role and
  content defaulting to the empty string.\<close>

theorem format_history_lines:
  assumes "pss \<noteq> []" and "\<forall>ps \<in> set pss. CHR 0x0A \<notin> set (py_str (dict_get ps ''content'' (JStr [])))"
  shows "\<exists>t. format_conversation_history (map JObj pss) = Inr t \<and>
    py_split_nl t = map (\<lambda>ps. (if dict_get ps ''role'' (JStr []) = JStr ''user'' then ''Patient'' else ''AI Coach'')
      @ '': '' @ py_str (dict_get ps ''content'' (JStr []))) pss"
proof -
  let ?ls = "map (\<lambda>ps. (if dict_get ps ''role'' (JStr []) = JStr ''user'' then ''Patient'' else ''AI Coach'')
      @ '': '' @ py_str (dict_get ps ''content'' (JStr []))) pss"
  have "\<forall>l \<in> set ?ls. CHR 0x0A \<notin> set l" using assms(2) by auto
  moreover have "?ls \<noteq> []" using assms(1) by simp
  ultimately have "py_split_nl (py_join [CHR 0x0A] ?ls) = ?ls" by (rule py_split_nl_join [rotated])
  then show ?thesis by (simp add: format_conversation_history_def format_lines_JObj)
qed

theorem format_history_lines_witness:
  "\<exists>t. format_conversation_history (map JObj [[(''role'', JStr ''user''), (''content'', JStr ''I did 2 sets'')],
       [(''role'', JStr ''assistant''), (''content'', JStr ''Great'')]]) = Inr t \<and>
     py_split_nl t = [''Patient: I did 2 sets'', ''AI Coach: Great'']"
proof -
  have "\<forall>ps \<in> set [[(''role'', JStr ''user''), (''content'', JStr ''I did 2 sets'')],
       [(''role'', JStr ''assistant''), (''content'', JStr ''Great'')]].
     CHR 0x0A \<notin> set (py_str (dict_get ps ''content'' (JStr [])))"
    by (simp add: py_eval)
  from format_history_lines [OF _ this] show ?thesis by (simp add: py_eval)
qed

text \<open>C25. Wherever it stands in a transcript, a patient message whose content is
  \<open>a\<close>, a newline, \<open>"AI Coach: "\<close> and \<open>b\<close> gives the same history text as a
  patient message \<open>a\<close> followed by a coach message \<open>b\<close>: the formatted history
  cannot tell them apart.\<close>

theorem format_history_forged_turn:
  "format_conversation_history
     (ms1 @ JObj [(''role'', JStr ''user''), (''content'', JStr (a @ [CHR 0x0A] @ ''AI Coach: '' @ b))] # ms2)
   = format_conversation_history
     (ms1 @ JObj [(''role'', JStr ''user''), (''content'', JStr a)]
        # JObj [(''role'', JStr ''assistant''), (''content'', JStr b)] # ms2)"
proof (cases "format_lines ms1")
  case (Inr l1)
  show ?thesis
  proof (cases "format_lines ms2")
    case (Inr l2)
    have "py_join [CHR 0x0A] (l1 @ (''Patient: '' @ a @ [CHR 0x0A] @ ''AI Coach: '' @ b) # l2) =
        py_join [CHR 0x0A] (l1 @ (''Patient: '' @ a) # (''AI Coach: '' @ b) # l2)"
      using py_join_split_line [where sep = "[CHR 0x0A]" and xs = l1 and x = "''Patient: '' @ a"
          and y = "''AI Coach: '' @ b" and ys = l2] by simp
    with \<open>format_lines ms1 = Inr l1\<close> Inr show ?thesis
      by (simp add: format_conversation_history_def format_lines_append format_line_def py_eval)
  qed (simp_all add: format_conversation_history_def format_lines_append format_line_def py_eval)
qed (simp add: format_conversation_history_def format_lines_append)

end
