(* ===== verification/Report.thy ===== *)
theory Report
  imports Http
begin

text \<open>
  The report handler \<open>generate_report(request)\<close> of
  \<open>src/backend/cloud_functions/generate_report/main.py\<close> (lines 15--70). The
  SQLite database is two tables, \<open>exercise_sessions\<close> and \<open>exercises\<close>, as lists
  of rows. The handler is defined over the result of its query as a function of
  the two bound parameters (\<open>fetch\<close>), because \<open>ORDER BY es.created_at DESC
  LIMIT 1\<close> leaves the choice among sessions with equal timestamps to the query
  planner: the contract of the query is \<open>latest_spec\<close>, and \<open>select_latest\<close>, the
  query evaluated in the tables' order, is one implementation of it.
\<close>

section \<open>Tables and the query\<close>

record es_row =
  es_patient_id :: sqlval
  es_exercise_id :: sqlval
  es_duration :: sqlval
  es_completed :: sqlval
  es_notes :: sqlval
  es_created_at :: sqlval

record ex_row =
  ex_id :: sqlval
  ex_name :: sqlval
  ex_description :: sqlval

record report_db =
  exercise_sessions :: "es_row list"
  exercises :: "ex_row list"

text \<open>A row of the result: \<open>e.name, e.description, es.duration, es.completed,
  es.notes, es.created_at\<close>.\<close>

record session_row =
  s_name :: sqlval
  s_description :: sqlval
  s_duration :: sqlval
  s_completed :: sqlval
  s_notes :: sqlval
  s_created_at :: sqlval

definition joined_row :: "es_row \<Rightarrow> ex_row \<Rightarrow> session_row" where
  "joined_row es e = \<lparr>s_name = ex_name e, s_description = ex_description e,
     s_duration = es_duration es, s_completed = es_completed es, s_notes = es_notes es,
     s_created_at = es_created_at es\<rparr>"

text \<open>\<open>FROM exercise_sessions es JOIN exercises e ON e.id = es.exercise_id
  WHERE es.patient_id = ? AND es.exercise_id = ?\<close>.\<close>

definition session_rows :: "report_db \<Rightarrow> sqlval \<Rightarrow> sqlval \<Rightarrow> session_row list" where
  "session_rows db p x =
     [joined_row es e. es \<leftarrow> exercise_sessions db, e \<leftarrow> exercises db,
        sql_eq (ex_id e) (es_exercise_id es) \<and> sql_eq (es_patient_id es) p \<and> sql_eq (es_exercise_id es) x]"

text \<open>\<open>ORDER BY es.created_at DESC LIMIT 1\<close> then \<open>fetchone()\<close>, evaluated over the
  rows in table order: the first row with the greatest \<open>created_at\<close>.\<close>

fun latest_of :: "session_row \<Rightarrow> session_row list \<Rightarrow> session_row" where
  "latest_of r [] = r"
| "latest_of r (r' # rs) =
     latest_of (if sql_le (s_created_at r') (s_created_at r) then r else r') rs"

definition select_latest :: "report_db \<Rightarrow> sqlval \<Rightarrow> sqlval \<Rightarrow> session_row option" where
  "select_latest db p x = (case session_rows db p x of [] \<Rightarrow> None | r # rs \<Rightarrow> Some (latest_of r rs))"

text \<open>What any evaluation of the query may return: nothing exactly when no row
  matches, otherwise a matching row whose \<open>created_at\<close> is not below any other's.\<close>

definition latest_spec :: "report_db \<Rightarrow> (sqlval \<Rightarrow> sqlval \<Rightarrow> session_row option) \<Rightarrow> bool" where
  "latest_spec db fetch \<longleftrightarrow> (\<forall>p x.
     (fetch p x = None \<longleftrightarrow> session_rows db p x = []) \<and>
     (\<forall>r. fetch p x = Some r \<longrightarrow> r \<in> set (session_rows db p x) \<and>
        (\<forall>r' \<in> set (session_rows db p x). sql_le (s_created_at r') (s_created_at r))))"

section \<open>The handler\<close>

text \<open>Lines 55--63: the report dict and its summary sentence, with \<open>str()\<close> of
  the values read and the truthiness of \<open>completed\<close>.\<close>

definition summary_text :: "session_row \<Rightarrow> string" where
  "summary_text r = ''Completed '' @ py_str (sql_to_py (s_name r)) @ '' exercise for ''
     @ py_str (sql_to_py (s_duration r)) @ '' minutes. ''
     @ (if py_truthy (sql_to_py (s_completed r)) then ''Successfully completed all reps.''
        else ''Exercise was interrupted.'')"

definition report_of :: "session_row \<Rightarrow> jval" where
  "report_of r = JObj [(''exercise_name'', sql_to_py (s_name r)),
     (''description'', sql_to_py (s_description r)), (''duration_minutes'', sql_to_py (s_duration r)),
     (''completed'', sql_to_py (s_completed r)), (''notes'', sql_to_py (s_notes r)),
     (''date'', sql_to_py (s_created_at r)), (''summary'', JStr (summary_text r))]"

definition report_body :: "session_row \<Rightarrow> jval" where
  "report_body r = JObj [(''report'', report_of r), (''status'', JStr ''success'')]"

text \<open>Lines 32--33: the two ids.\<close>

definition report_ids :: "jval \<Rightarrow> py_exc + jval \<times> jval" where
  "report_ids j = bind_sum (py_subscript j ''user_id'') (\<lambda>u.
     bind_sum (py_subscript j ''exercise_id'') (\<lambda>x. Inr (u, x)))"

text \<open>Lines 39--46: \<open>cursor.execute\<close> binds the parameters in order.\<close>

definition report_params :: "jval \<Rightarrow> jval \<Rightarrow> py_exc + sqlval \<times> sqlval" where
  "report_params u x = bind_sum (bind_param 1 u) (\<lambda>pu. bind_sum (bind_param 2 x) (\<lambda>px. Inr (pu, px)))"

text \<open>Lines 36--70, after the ids are read: connect, query, answer 404 when no row
  comes back (without closing the connection), otherwise close and answer with
  the report.\<close>

definition report_query :: "(sqlval \<Rightarrow> sqlval \<Rightarrow> session_row option) \<Rightarrow> jval \<Rightarrow> jval \<Rightarrow> response \<times> conn_state" where
  "report_query fetch u x =
     (case report_params u x of
        Inl e \<Rightarrow> (Uncaught e, OpenLeft)
      | Inr (pu, px) \<Rightarrow>
          (case fetch pu px of
             None \<Rightarrow> (Response (error_body ''Exercise session not found'') 404, OpenLeft)
           | Some r \<Rightarrow> (Response (report_body r) 200, Closed)))"

definition generate_report :: "(sqlval \<Rightarrow> sqlval \<Rightarrow> session_row option) \<Rightarrow> http_request \<Rightarrow> response \<times> conn_state" where
  "generate_report fetch rq =
     (if req_method rq \<noteq> ''POST'' then (Response (error_body ''Method not allowed'') 405, NotOpened)
      else let j = req_json rq in
        case request_incomplete j [''user_id'', ''exercise_id''] of
          Inl e \<Rightarrow> (Uncaught e, NotOpened)
        | Inr True \<Rightarrow> (Response (error_body ''Missing required fields'') 400, NotOpened)
        | Inr False \<Rightarrow>
            (case report_ids j of
               Inl e \<Rightarrow> (Uncaught e, NotOpened)
             | Inr (u, x) \<Rightarrow> report_query fetch u x))"

section \<open>Example database\<close>

text \<open>Two sessions of patient \<open>'p1'\<close> with exercise 7, and one of another patient.\<close>

definition ex_db :: report_db where
  "ex_db = \<lparr>exercise_sessions = [
       \<lparr>es_patient_id = SText ''p1'', es_exercise_id = SInt 7, es_duration = SInt 10,
        es_completed = SInt 1, es_notes = SText ''ok'', es_created_at = SText ''2024-05-01T09:00:00''\<rparr>,
       \<lparr>es_patient_id = SText ''p1'', es_exercise_id = SInt 7, es_duration = SInt 15,
        es_completed = SInt 0, es_notes = SNull, es_created_at = SText ''2024-05-03T09:00:00''\<rparr>,
       \<lparr>es_patient_id = SText ''p2'', es_exercise_id = SInt 7, es_duration = SInt 20,
        es_completed = SInt 1, es_notes = SNull, es_created_at = SText ''2024-05-04T09:00:00''\<rparr>],
     exercises = [\<lparr>ex_id = SInt 7, ex_name = SText ''Squat'', ex_description = SText ''Knee bends''\<rparr>]\<rparr>"

definition report_request :: "jval \<Rightarrow> jval \<Rightarrow> http_request" where
  "report_request u x = \<lparr>req_method = ''POST'', req_json = JObj [(''user_id'', u), (''exercise_id'', x)]\<rparr>"

section \<open>Lemmas\<close>

declare generate_report_def [handler_simps] report_query_def [handler_simps]

lemma latest_of_mem: "latest_of r rs \<in> set (r # rs)"
proof (induction rs arbitrary: r)
  case (Cons a rs)
  let ?m = "if sql_le (s_created_at a) (s_created_at r) then r else a"
  have "latest_of ?m rs \<in> set (?m # rs)" by (rule Cons.IH)
  then show ?case by auto
qed simp

lemma latest_of_max: "r' \<in> set (r # rs) \<Longrightarrow> sql_le (s_created_at r') (s_created_at (latest_of r rs))"
proof (induction rs arbitrary: r r')
  case Nil
  then show ?case by simp
next
  case (Cons a rs)
  let ?m = "if sql_le (s_created_at a) (s_created_at r) then r else a"
  have le: "sql_le (s_created_at r) (s_created_at ?m)" "sql_le (s_created_at a) (s_created_at ?m)"
    using sql_le_total [of "s_created_at a" "s_created_at r"] by auto
  have top: "sql_le (s_created_at ?m) (s_created_at (latest_of ?m rs))" using Cons.IH [of ?m ?m] by simp
  from Cons.prems consider "r' = r" | "r' = a" | "r' \<in> set rs" by auto
  then show ?case
  proof cases
    case 1
    then show ?thesis using sql_le_trans [OF le(1) top] by simp
  next
    case 2
    then show ?thesis using sql_le_trans [OF le(2) top] by simp
  next
    case 3
    then show ?thesis using Cons.IH [of r' ?m] by simp
  qed
qed

text \<open>The query evaluated in table order meets the query's contract.\<close>

lemma select_latest_spec: "latest_spec db (select_latest db)"
  unfolding latest_spec_def
proof (intro allI)
  fix p x
  show "(select_latest db p x = None \<longleftrightarrow> session_rows db p x = []) \<and>
    (\<forall>r. select_latest db p x = Some r \<longrightarrow> r \<in> set (session_rows db p x) \<and>
      (\<forall>r' \<in> set (session_rows db p x). sql_le (s_created_at r') (s_created_at r)))"
  proof (cases "session_rows db p x")
    case (Cons a rs)
    then show ?thesis
      using latest_of_mem [of a rs] latest_of_max [of _ a rs] by (simp add: select_latest_def)
  qed (simp add: select_latest_def)
qed

lemma generate_report_POST:
  assumes "req_method rq = ''POST''" and "req_json rq = JObj ps"
    and "''user_id'' \<in> set (dict_keys ps)" and "''exercise_id'' \<in> set (dict_keys ps)"
  shows "generate_report fetch rq =
    report_query fetch (the (dict_lookup ps ''user_id'')) (the (dict_lookup ps ''exercise_id''))"
proof -
  from assms(3,4) obtain u x where "dict_lookup ps ''user_id'' = Some u" "dict_lookup ps ''exercise_id'' = Some x"
    by (auto simp: dict_lookup_Some_iff [symmetric])
  moreover from assms(3) have "ps \<noteq> []" by (auto simp: dict_keys_def)
  ultimately show ?thesis using assms
    by (simp add: generate_report_def request_incomplete_def missing_any_JObj report_ids_def Let_def)
qed

lemma report_query_found:
  "report_params u x = Inr (pu, px) \<Longrightarrow> fetch pu px = Some r \<Longrightarrow>
   report_query fetch u x = (Response (report_body r) 200, Closed)"
  by (simp add: report_query_def)

lemma report_query_none:
  "report_params u x = Inr (pu, px) \<Longrightarrow> fetch pu px = None \<Longrightarrow>
   report_query fetch u x = (Response (error_body ''Exercise session not found'') 404, OpenLeft)"
  by (simp add: report_query_def)

lemma generate_report_ids:
  assumes "req_method rq = ''POST''" and "req_json rq = JObj ps"
    and "dict_lookup ps ''user_id'' = Some u" and "dict_lookup ps ''exercise_id'' = Some x"
  shows "generate_report fetch rq = report_query fetch u x"
proof -
  from assms(3,4) have "''user_id'' \<in> set (dict_keys ps)" "''exercise_id'' \<in> set (dict_keys ps)"
    by (auto simp: dict_lookup_Some_iff [symmetric])
  from generate_report_POST [OF assms(1,2) this] assms(3,4) show ?thesis by simp
qed

lemmas report_eval = generate_report_def report_request_def request_incomplete_def report_ids_def
  report_query_def report_params_def select_latest_def session_rows_def joined_row_def ex_db_def
  sql_le_def report_body_def report_of_def summary_text_def error_body_def

text \<open>C26. Refinement of the query's contract: for any evaluation of the query that
  meets \<open>latest_spec\<close>, a POST with both ids whose parameters bind and that
  matches some session is answered 200 with the report of a matching session whose
  \<open>created_at\<close> is the greatest, and the connection is closed.\<close>

theorem generate_report_latest_session:
  assumes "latest_spec db fetch" and "req_method rq = ''POST''" and "req_json rq = JObj ps"
    and "dict_lookup ps ''user_id'' = Some u" and "dict_lookup ps ''exercise_id'' = Some x"
    and "report_params u x = Inr (pu, px)" and "session_rows db pu px \<noteq> []"
  shows "\<exists>r. generate_report fetch rq = (Response (report_body r) 200, Closed) \<and>
    r \<in> set (session_rows db pu px) \<and>
    (\<forall>r' \<in> set (session_rows db pu px). sql_le (s_created_at r') (s_created_at r))"
proof -
  from assms(1,7) obtain r where f: "fetch pu px = Some r" unfolding latest_spec_def by fastforce
  with assms(1) have "r \<in> set (session_rows db pu px) \<and>
    (\<forall>r' \<in> set (session_rows db pu px). sql_le (s_created_at r') (s_created_at r))"
    unfolding latest_spec_def by blast
  with generate_report_ids [OF assms(2-5)] report_query_found [where fetch = fetch, OF assms(6) f] show ?thesis by auto
qed

theorem generate_report_latest_session_witness:
  "\<exists>r. generate_report (select_latest ex_db) (report_request (JStr ''p1'') (JInt 7)) =
      (Response (report_body r) 200, Closed) \<and>
    r \<in> set (session_rows ex_db (SText ''p1'') (SInt 7)) \<and>
    (\<forall>r' \<in> set (session_rows ex_db (SText ''p1'') (SInt 7)). sql_le (s_created_at r') (s_created_at r))"
proof -
  have p: "report_params (JStr ''p1'') (JInt 7) = Inr (SText ''p1'', SInt 7)" by (simp add: report_params_def)
  have n: "session_rows ex_db (SText ''p1'') (SInt 7) \<noteq> []" by (simp add: report_eval)
  show ?thesis
    using generate_report_latest_session [OF select_latest_spec _ _ _ _ p n,
        of "report_request (JStr ''p1'') (JInt 7)" "[(''user_id'', JStr ''p1''), (''exercise_id'', JInt 7)]"]
    by (simp add: report_request_def py_eval)
qed

text \<open>C27. A POST with both ids whose parameters bind but match no session is
  answered 404 \<open>Exercise session not found\<close>, and the handler returns without
  closing the connection.\<close>

theorem generate_report_not_found:
  assumes "latest_spec db fetch" and "req_method rq = ''POST''" and "req_json rq = JObj ps"
    and "dict_lookup ps ''user_id'' = Some u" and "dict_lookup ps ''exercise_id'' = Some x"
    and "report_params u x = Inr (pu, px)" and "session_rows db pu px = []"
  shows "generate_report fetch rq = (Response (error_body ''Exercise session not found'') 404, OpenLeft)"
proof -
  from assms(1,7) have "fetch pu px = None" unfolding latest_spec_def by blast
  with generate_report_ids [OF assms(2-5)] report_query_none [where fetch = fetch, OF assms(6)] show ?thesis by simp
qed

theorem generate_report_not_found_witness:
  "generate_report (select_latest ex_db) (report_request (JStr ''p3'') (JInt 7)) =
     (Response (error_body ''Exercise session not found'') 404, OpenLeft)"
proof -
  have p: "report_params (JStr ''p3'') (JInt 7) = Inr (SText ''p3'', SInt 7)" by (simp add: report_params_def)
  have n: "session_rows ex_db (SText ''p3'') (SInt 7) = []" by (simp add: report_eval)
  show ?thesis
    using generate_report_not_found [OF select_latest_spec _ _ _ _ p n,
        of "report_request (JStr ''p3'') (JInt 7)" "[(''user_id'', JStr ''p3''), (''exercise_id'', JInt 7)]"]
    by (simp add: report_request_def py_eval)
qed

text \<open>C29. A POST whose body is falsy (\<open>None\<close>, empty, zero) or an object lacking
  \<open>user_id\<close> or \<open>exercise_id\<close> is answered 400 \<open>Missing required fields\<close>,
  without opening the database.\<close>

theorem generate_report_missing_fields:
  assumes "req_method rq = ''POST''"
    and "\<not> py_truthy (req_json rq) \<or> (\<exists>ps. req_json rq = JObj ps \<and>
           (''user_id'' \<notin> set (dict_keys ps) \<or> ''exercise_id'' \<notin> set (dict_keys ps)))"
  shows "generate_report fetch rq = (Response (error_body ''Missing required fields'') 400, NotOpened)"
  using assms by (auto simp: generate_report_def request_incomplete_def missing_any_JObj Let_def)

theorem generate_report_missing_fields_witness:
  "generate_report (select_latest ex_db) \<lparr>req_method = ''POST'', req_json = JObj [(''user_id'', JStr ''p1'')]\<rparr> =
     (Response (error_body ''Missing required fields'') 400, NotOpened)"
  using generate_report_missing_fields [of "\<lparr>req_method = ''POST'', req_json = JObj [(''user_id'', JStr ''p1'')]\<rparr>"]
  by (simp add: dict_keys_def)

lemma py_truthy_sql_to_py:
  "py_truthy (sql_to_py v) \<longleftrightarrow>
     \<not> (v = SNull \<or> v = SInt 0 \<or> v = SText [] \<or> (\<exists>neg e. v = SReal (PFin neg 0 e)))"
proof (cases v)
  case (SReal f)
  then show ?thesis by (cases f) auto
qed auto

lemma append_success_ne_interrupted:
  "p @ ''Successfully completed all reps.'' \<noteq> q @ ''Exercise was interrupted.''"
proof
  assume "p @ ''Successfully completed all reps.'' = q @ ''Exercise was interrupted.''"
  then have "take 2 (rev (p @ ''Successfully completed all reps.'')) = take 2 (rev (q @ ''Exercise was interrupted.''))"
    by simp
  then show False by simp
qed

text \<open>C30. The summary reports a completed exercise exactly when the stored
  \<open>completed\<close> value is truthy in Python: anything but NULL, the integer 0, a
  float zero and the empty text. A text such as \<open>'false'\<close> or \<open>'0'\<close> therefore
  reads as completed.\<close>

theorem report_summary_completed:
  "(\<exists>p. summary_text r = p @ ''Successfully completed all reps.'') \<longleftrightarrow>
   \<not> (s_completed r = SNull \<or> s_completed r = SInt 0 \<or> s_completed r = SText [] \<or>
      (\<exists>neg e. s_completed r = SReal (PFin neg 0 e)))"
proof -
  have "(\<exists>p. summary_text r = p @ ''Successfully completed all reps.'') \<longleftrightarrow> py_truthy (sql_to_py (s_completed r))"
    using append_success_ne_interrupted by (auto simp: summary_text_def)
  then show ?thesis by (simp only: py_truthy_sql_to_py)
qed

theorem report_summary_completed_witness:
  "\<exists>p. summary_text \<lparr>s_name = SText ''Squat'', s_description = SNull, s_duration = SInt 5,
      s_completed = SText ''false'', s_notes = SNull, s_created_at = SNull\<rparr> = p @ ''Successfully completed all reps.''"
  using report_summary_completed [of "\<lparr>s_name = SText ''Squat'', s_description = SNull, s_duration = SInt 5,
      s_completed = SText ''false'', s_notes = SNull, s_created_at = SNull\<rparr>"] by simp

text \<open>C31. An id that \<open>sqlite3\<close> cannot bind (a list or an object) makes
  \<open>cursor.execute\<close> raise \<open>ProgrammingError\<close>, which escapes the handler after
  the connection was opened, and it is not closed.\<close>

theorem generate_report_unbindable_id:
  assumes "req_method rq = ''POST''" and "req_json rq = JObj ps"
    and "dict_lookup ps ''user_id'' = Some (JList xs)" and "dict_lookup ps ''exercise_id'' = Some x"
  shows "generate_report fetch rq =
    (Uncaught (ProgrammingError (''Error binding parameter 1: type '' @ quoted ''list'' @ '' is not supported'')),
     OpenLeft)"
  using generate_report_ids [OF assms] by (simp add: report_query_def report_params_def py_eval)

theorem generate_report_unbindable_id_witness:
  "generate_report (select_latest ex_db) (report_request (JList [JStr ''p1'']) (JInt 7)) =
    (Uncaught (ProgrammingError (''Error binding parameter 1: type '' @ quoted ''list'' @ '' is not supported'')),
     OpenLeft)"
  using generate_report_unbindable_id [of "report_request (JList [JStr ''p1'']) (JInt 7)"
      "[(''user_id'', JList [JStr ''p1'']), (''exercise_id'', JInt 7)]" "[JStr ''p1'']" "JInt 7"]
  by (simp add: report_request_def py_eval)

text \<open>C32. A POST whose body is a non-zero number makes \<open>'user_id' not in
  request_json\<close> raise \<open>TypeError\<close>, which escapes the handler.\<close>

theorem generate_report_body_not_iterable:
  "req_method rq = ''POST'' \<Longrightarrow> req_json rq = JInt n \<Longrightarrow> n \<noteq> 0 \<Longrightarrow>
   generate_report fetch rq = (Uncaught (TypeError (''argument of type '' @ quoted ''int'' @ '' is not iterable'')), NotOpened)"
  by (simp add: generate_report_def request_incomplete_def py_eval)

theorem generate_report_body_not_iterable_witness:
  "generate_report (select_latest ex_db) \<lparr>req_method = ''POST'', req_json = JInt 5\<rparr> =
     (Uncaught (TypeError (''argument of type '' @ quoted ''int'' @ '' is not iterable'')), NotOpened)"
  using generate_report_body_not_iterable [of "\<lparr>req_method = ''POST'', req_json = JInt 5\<rparr>" 5] by simp

text \<open>C33. Safety of the connection: the handler closes the connection exactly
  when it answers 200; the 404 answer and the binding errors leave it open, and
  the earlier answers never open it.\<close>

theorem generate_report_closes_only_on_success:
  "snd (generate_report fetch rq) = Closed \<longleftrightarrow> (\<exists>b. fst (generate_report fetch rq) = Response b 200)"
  by (auto simp: generate_report_def report_query_def Let_def split: sum.splits option.splits prod.splits bool.splits)

end
