(* ===== verification/LegacyOnboard.thy ===== *)
theory LegacyOnboard
  imports Http
begin

text \<open>
  The HTTP entry point \<open>onboard_patient(request)\<close> of
  \<open>src/backend/cloud_functions/onboard_patient/main.py\<close> (lines 44--92), which
  stores a patient and a pain point in SQLite. The database is the two tables as
  lists of rows; inserts take effect at \<open>conn.commit()\<close>, and an exception before
  the commit leaves the tables as they were (the open transaction is rolled back
  when the connection is discarded). The environment supplies the two results of
  \<open>uuid.uuid4()\<close>.

  The module imports the class with \<open>from datetime import datetime\<close>, so
  \<open>datetime.datetime.now()\<close> on line 70 looks up an attribute \<open>datetime\<close> on the
  class, which raises \<open>AttributeError\<close>; the model keeps the statements after it,
  and the theorems show they are never reached.
\<close>

section \<open>State\<close>

record patient_row =
  pr_id :: sqlval
  pr_name :: sqlval
  pr_created_at :: sqlval
  pr_updated_at :: sqlval

record pain_point_row =
  pp_id :: sqlval
  pp_patient_id :: sqlval
  pp_description :: sqlval
  pp_severity :: sqlval
  pp_created_at :: sqlval

record legacy_db =
  patients_table :: "patient_row list"
  pain_points_table :: "pain_point_row list"

record legacy_env =
  env_user_uuid :: string
  env_pain_uuid :: string

section \<open>The handler\<close>

text \<open>Line 70: \<open>datetime.datetime.now().isoformat()\<close> where \<open>datetime\<close> is the class.\<close>

definition legacy_now :: "py_exc + string" where
  "legacy_now = Inl (AttributeError (''type object '' @ quoted ''datetime.datetime''
     @ '' has no attribute '' @ quoted ''datetime''))"

text \<open>Lines 73--82: the two inserts with their parameters bound in order; lines
  84--85: commit and close.\<close>

definition legacy_inserts :: "legacy_env \<Rightarrow> jval \<Rightarrow> jval \<Rightarrow> string \<Rightarrow> legacy_db \<Rightarrow> py_exc + legacy_db" where
  "legacy_inserts env name pain now db =
     bind_sum (bind_param 2 name) (\<lambda>n.
     bind_sum (bind_param 3 pain) (\<lambda>p.
       Inr \<lparr>patients_table = patients_table db @
              [\<lparr>pr_id = SText (env_user_uuid env), pr_name = n, pr_created_at = SText now,
                pr_updated_at = SText now\<rparr>],
            pain_points_table = pain_points_table db @
              [\<lparr>pp_id = SText (env_pain_uuid env), pp_patient_id = SText (env_user_uuid env),
                pp_description = p, pp_severity = SInt 5, pp_created_at = SText now\<rparr>]\<rparr>))"

definition legacy_success_body :: "string \<Rightarrow> jval" where
  "legacy_success_body uid = JObj [(''user_id'', JStr uid), (''status'', JStr ''success'')]"

definition onboard_patient :: "legacy_env \<Rightarrow> http_request \<Rightarrow> legacy_db \<Rightarrow> response \<times> conn_state \<times> legacy_db" where
  "onboard_patient env rq db =
     (if req_method rq \<noteq> ''POST'' then (Response (error_body ''Method not allowed'') 405, NotOpened, db)
      else let j = req_json rq in
        case request_incomplete j [''name'', ''pain_point''] of
          Inl e \<Rightarrow> (Uncaught e, NotOpened, db)
        | Inr True \<Rightarrow> (Response (error_body ''Missing required fields'') 400, NotOpened, db)
        | Inr False \<Rightarrow>
            (case bind_sum (py_subscript j ''name'') (\<lambda>n.
                    bind_sum (py_subscript j ''pain_point'') (\<lambda>p. Inr (n, p))) of
               Inl e \<Rightarrow> (Uncaught e, NotOpened, db)
             | Inr (name, pain) \<Rightarrow>
                 (case legacy_now of
                    Inl e \<Rightarrow> (Uncaught e, OpenLeft, db)
                  | Inr now \<Rightarrow>
                      (case legacy_inserts env name pain now db of
                         Inl e \<Rightarrow> (Uncaught e, OpenLeft, db)
                       | Inr db' \<Rightarrow> (Response (legacy_success_body (env_user_uuid env)) 200, Closed, db')))))"

definition ex_legacy_env :: legacy_env where
  "ex_legacy_env = \<lparr>env_user_uuid = ''7f3e'', env_pain_uuid = ''9a01''\<rparr>"

definition ex_legacy_request :: http_request where
  "ex_legacy_request = \<lparr>req_method = ''POST'',
     req_json = JObj [(''name'', JStr ''Ada''), (''pain_point'', JStr ''left knee'')]\<rparr>"

section \<open>Properties\<close>

declare onboard_patient_def [handler_simps]

text \<open>C34. Every POST whose body is an object with \<open>name\<close> and \<open>pain_point\<close>
  fails with the \<open>AttributeError\<close> of \<open>datetime.datetime\<close>, after the connection
  is opened and before anything is inserted: the function never onboards anyone.\<close>

theorem onboard_patient_always_raises:
  assumes "req_method rq = ''POST''" and "req_json rq = JObj ps"
    and "''name'' \<in> set (dict_keys ps)" and "''pain_point'' \<in> set (dict_keys ps)"
  shows "onboard_patient env rq db =
    (Uncaught (AttributeError (''type object '' @ quoted ''datetime.datetime''
       @ '' has no attribute '' @ quoted ''datetime'')), OpenLeft, db)"
proof -
  from assms(3,4) obtain n p where "dict_lookup ps ''name'' = Some n" "dict_lookup ps ''pain_point'' = Some p"
    by (auto simp: dict_lookup_Some_iff [symmetric])
  moreover from assms(3) have "ps \<noteq> []" by (auto simp: dict_keys_def)
  ultimately show ?thesis using assms
    by (simp add: onboard_patient_def request_incomplete_def missing_any_JObj legacy_now_def Let_def)
qed

theorem onboard_patient_always_raises_witness:
  "onboard_patient ex_legacy_env ex_legacy_request \<lparr>patients_table = [], pain_points_table = []\<rparr> =
    (Uncaught (AttributeError (''type object '' @ quoted ''datetime.datetime''
       @ '' has no attribute '' @ quoted ''datetime'')), OpenLeft, \<lparr>patients_table = [], pain_points_table = []\<rparr>)"
  using onboard_patient_always_raises [of ex_legacy_request
      "[(''name'', JStr ''Ada''), (''pain_point'', JStr ''left knee'')]"]
  by (simp add: ex_legacy_request_def dict_keys_def)

text \<open>C35. Safety: whatever the request, \<open>onboard_patient\<close> leaves both tables
  unchanged.\<close>

theorem onboard_patient_tables_unchanged:
  "snd (snd (onboard_patient env rq db)) = db"
  by (simp add: onboard_patient_def legacy_now_def Let_def split: sum.splits bool.splits prod.splits)

end
