(* ===== verification/Spec2Isabelle.thy ===== *)
theory Spec2Isabelle
  imports Onboarding Metrics Formatter Report LegacyOnboard
begin

text \<open>
  \<^bold>\<open>A verification development of the pep_mvp backend.\<close>

  The repository has two Google Cloud Functions, each a Python module:
  \<^item> \<open>src/backend/cloud_functions/onboard_patient/main.py\<close>: the HTTP function
    \<open>onboard_patient\<close> (lines 44--92, an older entry point writing a patient and
    a pain point to SQLite) and \<open>process_structured_onboarding\<close> (lines 94--206),
    which validates a structured intake (presence, age 5..100, pain level 1..10,
    frequency phrasing, \<open>HH:MM\<close> notification time), lower-cases the frequency
    and writes a patient document to the Firestore collection \<open>patients\<close>;
  \<^item> \<open>src/backend/cloud_functions/generate_report/main.py\<close>: the HTTP function
    \<open>generate_report\<close> (lines 15--70), which reads the latest exercise session of
    a patient and exercise from SQLite and renders a report with a summary
    sentence, and the helpers \<open>extract_exercise_metrics\<close> (lines 72--104: counts
    of sets, reps and minutes mined from a conversation with regular expressions)
    and \<open>format_conversation_history\<close> (lines 106--115).
  The components share no state; they meet only in the stores, in the request
  guard the two HTTP functions open with, and in the Python runtime.

  \<^bold>\<open>Theories.\<close>
  \<^item> \<open>Prelude\<close>: the named collections (\<open>py_eval\<close>, \<open>re_eval\<close>,
    \<open>handler_simps\<close>), decimal digits, \<open>str.join\<close>, substring search, sum
    sequencing (\<open>bind_sum\<close>), list lemmas.
  \<^item> \<open>PyRuntime\<close>: JSON values as Python sees them (\<open>jval\<close>), exceptions
    (\<open>py_exc\<close>), truthiness, \<open>str\<close>/\<open>repr\<close> (CPython's float repr), \<open>str.lower\<close>,
    white space, \<open>int()\<close> with CPython's grammar and 4300-digit limit (a digit run
    reads as its value, and every result is below \<open>10 ^ 4300\<close>), dict \<open>get\<close>,
    \<open>in\<close> and subscript. Strings are Latin-1 code points.
  \<^item> \<open>PyRe\<close>: a backtracking matcher in continuation-passing style for the
    fragment of \<open>re\<close> the code uses, with \<open>re.match\<close> and \<open>re.findall\<close>.
  \<^item> \<open>Http\<close>: requests and responses of the HTTP functions (an exception that
    escapes is the value \<open>Uncaught\<close>), the shared guard
    \<open>not request_json or 'k' not in request_json\<close>, SQLite values, parameter
    binding, the comparisons of \<open>WHERE\<close> and \<open>ORDER BY\<close>, and the connection
    state (never opened, left open, closed).
  \<^item> \<open>Onboarding\<close>: \<open>process_structured_onboarding\<close> step by step and the handler
    over the Firestore collection (an association list written by
    \<open>AList.update\<close>); the environment gives \<open>uuid.uuid4()\<close>, \<open>datetime.now()\<close>
    and the outcome of the write. Claims C1--C15.
  \<^item> \<open>CountScan\<close>: the three count patterns of the extractor and a one-pass
    scanner \<open>scan_counts\<close> proved equal to \<open>re.findall\<close> on them (C18), and the
    consequence that the patterns have no word boundary (C22).
  \<^item> \<open>Metrics\<close>: \<open>extract_exercise_metrics\<close> as a loop over messages with the
    state \<open>(metrics, re bound?)\<close>, one definition per branch; the contract of the
    design (an extractor per message, aggregation by maximum, \<open>aggregate\<close>,
    stated over any extractor). Claims C16, C17, C19--C21, C23.
  \<^item> \<open>Formatter\<close>: \<open>format_conversation_history\<close> and \<open>str.split('\\n')\<close> to
    read it back. Claims C24, C25.
  \<^item> \<open>Report\<close>: \<open>generate_report\<close> over the result of its query as a function of
    the bound parameters, the query's contract \<open>latest_spec\<close>, and
    \<open>select_latest\<close>, the query evaluated over the tables in their order, proved
    to meet it. Claims C26, C27, C29--C33.
  \<^item> \<open>LegacyOnboard\<close>: \<open>onboard_patient\<close> over two SQLite tables, with the
    inserts taking effect at the commit. Claims C34, C35.
  \<^item> This theory: C28, the property of both HTTP functions.

  \<^bold>\<open>What the lemmas show.\<close>
  \<^item> Onboarding: the store invariant (every stored document satisfies the input
    constraints) is kept by every request; the handler answers 200 exactly when
    all checks pass and the write succeeds; each rejection with its message;
    the paths where an exception becomes a 500 (non-string frequency or
    notification time, infinite age, non-object body, failed write); the
    frequency and notification-time checks against the spec's formats.
  \<^item> Metrics and formatter: refinement of the aggregation contract (C16) under the condition,
    computed by \<open>re_ok\<close>, that the function-local \<open>re\<close> is bound when read;
    otherwise \<open>UnboundLocalError\<close> (C17); \<open>re.findall\<close> equals the scanner (C18),
    so any word starting with a keyword counts (C22); monotone counters; no \<open>rep\<close> mention gives 0 reps; the
    role is ignored; counters stay below \<open>10 ^ 4300\<close>; splitting the formatted
    history at newlines gives one \<open>"<speaker>: <content>"\<close> line per message
    when no content holds a newline, and otherwise a content with a newline and
    a speaker label forges a coach turn anywhere in a transcript.
  \<^item> Report: for any query evaluation meeting the contract, the answer is the
    report of a latest matching session (C26) or 404 (C27); 400 on a missing id;
    the summary's completion clause follows Python truthiness of the stored value;
    errors that escape (unbindable id, non-iterable body); the connection is
    closed exactly on 200.
  \<^item> Legacy onboarding: every well-formed POST raises \<open>AttributeError\<close> on
    \<open>datetime.datetime\<close>, and no request changes the tables.

  \<^bold>\<open>Bounds and fuel.\<close> No fuel is needed: every loop is a structural recursion
  or a \<open>function\<close> with a measure (\<open>findall_from\<close>: the distance to the end
  of the subject; \<open>scan_counts\<close>: the length of the rest). The only numeric bound
  is CPython's 4300-digit limit of \<open>int()\<close>, modelled as in CPython; SQLite
  integers are 64-bit at binding.

  \<^bold>\<open>Not modelled.\<close> HTTP transport and \<open>flask.jsonify\<close>'s serialisation (bodies
  are kept as \<open>jval\<close>; the JSON text's key order is not represented), the
  content-type check of \<open>request.get_json()\<close> (its result is an input), logging,
  \<open>json.dumps\<close> and \<open>DateTimeEncoder\<close> (every value the handlers encode is a
  string, number or null, so \<open>default\<close> is never invoked), Firebase/Firestore
  client setup and the OpenAI import (module initialisation), SQLite column
  affinity (the schema is not in the repository; comparisons follow the values'
  storage classes), BLOB values, code points above U+00FF.
\<close>

text \<open>C28. Both HTTP functions answer every request whose method is not POST with
  405 \<open>Method not allowed\<close>, before looking at the body and without opening the
  database or changing it.\<close>

theorem handlers_method_not_allowed:
  "req_method rq \<noteq> ''POST'' \<Longrightarrow>
   generate_report fetch rq = (Response (error_body ''Method not allowed'') 405, NotOpened) \<and>
   onboard_patient env rq db = (Response (error_body ''Method not allowed'') 405, NotOpened, db)"
  by (simp add: handler_simps)

theorem handlers_method_not_allowed_witness:
  "generate_report (select_latest ex_db) \<lparr>req_method = ''GET'', req_json = JNull\<rparr> =
     (Response (error_body ''Method not allowed'') 405, NotOpened) \<and>
   onboard_patient ex_legacy_env \<lparr>req_method = ''GET'', req_json = JNull\<rparr> \<lparr>patients_table = [], pain_points_table = []\<rparr> =
     (Response (error_body ''Method not allowed'') 405, NotOpened, \<lparr>patients_table = [], pain_points_table = []\<rparr>)"
  using handlers_method_not_allowed [of "\<lparr>req_method = ''GET'', req_json = JNull\<rparr>"] by simp

end
